theory Spec2Isabelle
  imports Complex_Main
begin

section \<open>Python values used by server.py\<close>

text \<open>
  The module is Python 2. Strings are byte strings (\<open>char list\<close>). An exception is a
  value of \<open>py_error\<close>; every operation of the connection returns the outcome (the
  exception raised, or the value returned) together with the connection as it is at
  that moment, since a method that raises keeps the attribute assignments it made
  before the raise.
\<close>

datatype py_error = AssertionError | ValueError | TypeError | IndexError | AttributeError

text \<open>C \<open>isspace\<close>, which \<open>str.strip()\<close>, \<open>str.split(None)\<close> and \<open>int()\<close> use.\<close>

definition is_space :: "char \<Rightarrow> bool" where
  "is_space c = (c \<in> set [CHR '' '', CHR 0x09, CHR 0x0A, CHR 0x0B, CHR 0x0C, CHR 0x0D])"

text \<open>\<open>s.strip()\<close>\<close>

definition strip :: "string \<Rightarrow> string" where
  "strip s = rev (dropWhile is_space (rev (dropWhile is_space s)))"

text \<open>\<open>s.lower()\<close> on a byte string: the letters A to Z only.\<close>

definition lower_char :: "char \<Rightarrow> char" where
  "lower_char c =
     (case map_of (zip ''ABCDEFGHIJKLMNOPQRSTUVWXYZ'' ''abcdefghijklmnopqrstuvwxyz'') c of
        None \<Rightarrow> c
      | Some l \<Rightarrow> l)"

definition lower :: "string \<Rightarrow> string" where
  "lower s = map lower_char s"

text \<open>\<open>sep.join(xs)\<close>\<close>

fun join :: "string \<Rightarrow> string list \<Rightarrow> string" where
  "join sep [] = []"
| "join sep [x] = x"
| "join sep (x # y # ys) = x @ sep @ join sep (y # ys)"

subsection \<open>\<open>int(value)\<close> and \<open>str(n)\<close>\<close>

definition is_digit :: "char \<Rightarrow> bool" where
  "is_digit c = ((48::nat) \<le> of_char c \<and> of_char c \<le> (57::nat))"

definition digit_val :: "char \<Rightarrow> nat" where
  "digit_val c = of_char c - 48"

definition digits_val :: "string \<Rightarrow> nat" where
  "digits_val ds = foldl (\<lambda>a c. 10 * a + digit_val c) 0 ds"

text \<open>
  \<open>int(s)\<close> for a string: white space around the literal is skipped, one sign is
  allowed, and what remains must be one or more decimal digits; anything else raises
  ValueError (\<open>None\<close> here). The result is unbounded (Python 2 returns a long where an
  int does not fit).
\<close>

definition py_int :: "string \<Rightarrow> int option" where
  "py_int s =
     (let t = strip s;
          neg = (t \<noteq> [] \<and> hd t = CHR ''-'');
          ds = (if t \<noteq> [] \<and> (hd t = CHR ''-'' \<or> hd t = CHR ''+'') then tl t else t)
      in if ds \<noteq> [] \<and> list_all is_digit ds
         then Some (if neg then - int (digits_val ds) else int (digits_val ds))
         else None)"

definition digit_char :: "nat \<Rightarrow> char" where
  "digit_char d = ''0123456789'' ! d"

fun dec_digits :: "nat \<Rightarrow> string" where
  "dec_digits n = (if n < 10 then [digit_char n] else dec_digits (n div 10) @ [digit_char (n mod 10)])"

declare dec_digits.simps [simp del]

text \<open>\<open>str(n)\<close> for an integer.\<close>

definition py_str :: "int \<Rightarrow> string" where
  "py_str n = (if n < 0 then CHR ''-'' # dec_digits (nat (- n)) else dec_digits (nat n))"

subsection \<open>\<open>hex(n)\<close>\<close>

definition hex_char :: "nat \<Rightarrow> char" where
  "hex_char d = ''0123456789abcdef'' ! d"

fun hex_digits :: "nat \<Rightarrow> string" where
  "hex_digits n = (if n < 16 then [hex_char n] else hex_digits (n div 16) @ [hex_char (n mod 16)])"

declare hex_digits.simps [simp del]

text \<open>\<open>hex(n)\<close> for a non-negative int, as \<open>len\<close> returns: \<open>0x\<close> and lower-case digits.\<close>

definition py_hex :: "nat \<Rightarrow> string" where
  "py_hex n = ''0x'' @ hex_digits n"

subsection \<open>Floats\<close>

text \<open>
  A Python float is a double: a finite value (kept here as the rational it denotes),
  an infinity or a NaN. Comparisons are those of IEEE 754: every comparison with a NaN
  is false.
\<close>

datatype pyfloat = Finite rat | PosInf | NegInf | NaN

fun float_lt :: "pyfloat \<Rightarrow> pyfloat \<Rightarrow> bool" where
  "float_lt NaN _ = False"
| "float_lt _ NaN = False"
| "float_lt (Finite a) (Finite b) = (a < b)"
| "float_lt (Finite a) PosInf = True"
| "float_lt NegInf (Finite b) = True"
| "float_lt NegInf PosInf = True"
| "float_lt _ _ = False"

fun float_eq :: "pyfloat \<Rightarrow> pyfloat \<Rightarrow> bool" where
  "float_eq (Finite a) (Finite b) = (a = b)"
| "float_eq PosInf PosInf = True"
| "float_eq NegInf NegInf = True"
| "float_eq _ _ = False"

definition float_ge :: "pyfloat \<Rightarrow> pyfloat \<Rightarrow> bool" where
  "float_ge a b = (float_lt b a \<or> float_eq a b)"

text \<open>
  The literals \<open>1.1\<close> and \<open>2.0\<close> of the source. \<open>1.1\<close> is the double nearest to 11/10,
  which is 2476979795053773 / 2^51; \<open>float("1.1")\<close> is the same double.
\<close>

definition lit_1_1 :: pyfloat where
  "lit_1_1 = Finite (2476979795053773 / 2251799813685248)"

definition lit_2_0 :: pyfloat where
  "lit_2_0 = Finite 2"

section \<open>Names imported from the modules common and error\<close>

text \<open>
  \<open>server.py\<close> imports \<open>CLOSE, COUNTED, CHUNKED, NONE\<close> (the response delimiters),
  \<open>WAITING, HEADERS_DONE\<close> (the phases), \<open>hop_by_hop_hdrs\<close>, \<open>linesep\<close> and \<open>dummy\<close>
  from \<open>common\<close>, and \<open>ERR_HTTP_VERSION\<close>, \<open>ERR_HOST_REQ\<close> from \<open>error\<close>. The
  delimiters and the phases are pairwise distinct constants; the table
  \<open>hop_by_hop_hdrs\<close> and the two error dictionaries are parameters of the functions
  that use them.
\<close>

datatype delimit = CLOSE | COUNTED | CHUNKED | NONE

datatype state = WAITING | HEADERS_DONE

text \<open>
  Modelled from the spec: \<open>linesep\<close> of the module \<open>common\<close> is not in the sources; the
  spec's wire format ends every header line with CR LF.
\<close>

definition linesep :: string where
  "linesep = [CHR 0x0D, CHR 0x0A]"

text \<open>A callable handed around as a value (\<open>dummy\<close>, the handler's callbacks).\<close>

type_synonym callback = nat

definition dummy :: callback where
  "dummy = 0"

text \<open>
  An error dictionary of the module \<open>error\<close>: the key \<open>desc\<close> is always there, \<open>status\<close>
  (a pair of code and phrase) and \<open>detail\<close> may be. Such a dictionary is never empty,
  so \<open>if err:\<close> holds exactly when \<open>err\<close> is not \<open>None\<close>.
\<close>

record error_dict =
  desc :: string
  status :: "(string \<times> string) option"
  detail :: "string option"

section \<open>The connection\<close>

text \<open>
  The transport (\<open>push_tcp\<close>) is outside the module. What the connection does to it is
  recorded: the argument of every \<open>write\<close> in order, and whether \<open>close\<close> was called.
\<close>

record transport =
  written :: "string list"
  closed :: bool

definition tcp_write :: "transport \<Rightarrow> string \<Rightarrow> transport" where
  "tcp_write t s = t\<lparr>written := written t @ [s]\<rparr>"

definition tcp_close :: "transport \<Rightarrow> transport" where
  "tcp_close t = t\<lparr>closed := True\<rparr>"

text \<open>
  The attributes of \<open>HttpServerConnection\<close>. \<open>tcp_conn\<close> is \<open>None\<close> once \<open>_input_error\<close>
  has dropped the transport; \<open>input_state\<close> is the parser's \<open>_input_state\<close>.
\<close>

record conn =
  req_body_cb :: "callback option"
  req_done_cb :: "callback option"
  meth :: "string option"
  req_version :: "pyfloat option"
  tcp_conn :: "transport option"
  res_state :: state
  connection_hdr :: "string list"
  res_delimit :: "delimit option"
  res_body_pause_cb :: "callback option"
  input_state :: state

text \<open>\<open>HttpServerConnection.__init__\<close>\<close>

definition init_conn :: "transport \<Rightarrow> conn" where
  "init_conn t =
     \<lparr>req_body_cb = None, req_done_cb = None, meth = None, req_version = None,
      tcp_conn = Some t, res_state = WAITING, connection_hdr = [], res_delimit = None,
      res_body_pause_cb = None, input_state = WAITING\<rparr>"

type_synonym 'a outcome = "(py_error + 'a) \<times> conn"

subsection \<open>\<open>res_start\<close>\<close>

text \<open>
  The loop over \<open>res_hdrs\<close> (lines 140 to 149): \<open>res_top\<close> and \<open>res_len\<close> are the loop's
  variables; a Content-Length value that \<open>int\<close> rejects raises ValueError out of the loop.
\<close>

fun res_hdrs_loop ::
  "string list \<Rightarrow> (string \<times> string) list \<Rightarrow> string list \<Rightarrow> int option
     \<Rightarrow> py_error + (string list \<times> int option)" where
  "res_hdrs_loop hop [] res_top res_len = Inr (res_top, res_len)"
| "res_hdrs_loop hop ((name, value) # rest) res_top res_len =
     (let norm_name = lower (strip name) in
      case (if norm_name = ''content-length''
            then (case py_int value of None \<Rightarrow> Inl ValueError | Some n \<Rightarrow> Inr (Some n))
            else Inr res_len) of
        Inl e \<Rightarrow> Inl e
      | Inr res_len' \<Rightarrow>
          if norm_name \<in> set hop then res_hdrs_loop hop rest res_top res_len'
          else res_hdrs_loop hop rest (res_top @ [name @ '': '' @ value]) res_len')"

text \<open>
  \<open>2.0 > self.req_version >= 1.1\<close>. Before the first request \<open>req_version\<close> is \<open>None\<close>, which
  Python 2 orders below every number: \<open>None >= 1.1\<close> is false.
\<close>

definition version_chunks :: "pyfloat option \<Rightarrow> bool" where
  "version_chunks v =
     (case v of None \<Rightarrow> False | Some x \<Rightarrow> float_lt x lit_2_0 \<and> float_ge x lit_1_1)"

text \<open>The \<open>if\<close> chain of lines 150 to 162: the delimiter and the lines appended for it.\<close>

definition choose_delimit ::
  "string list \<Rightarrow> int option \<Rightarrow> pyfloat option \<Rightarrow> delimit \<times> string list" where
  "choose_delimit conn_hdr res_len v =
     (if ''close'' \<in> set conn_hdr then (CLOSE, [''Connection: close, asked_for''])
      else case res_len of
        Some n \<Rightarrow> (COUNTED, [''Content-Length: '' @ py_str n, ''Connection: keep-alive''])
      | None \<Rightarrow>
          if version_chunks v then (CHUNKED, [''Transfer-Encoding: chunked''])
          else (CLOSE, [''Connection: close'']))"

definition res_start ::
  "string list \<Rightarrow> conn \<Rightarrow> string \<Rightarrow> string \<Rightarrow> (string \<times> string) list \<Rightarrow> callback
     \<Rightarrow> unit outcome" where
  "res_start hop c status_code status_phrase res_hdrs res_body_pause =
     (if res_state c \<noteq> WAITING then (Inl AssertionError, c)
      else
        let c1 = c\<lparr>res_body_pause_cb := Some res_body_pause\<rparr>;
            res_top = [''HTTP/1.1 '' @ status_code @ '' '' @ status_phrase]
        in case res_hdrs_loop hop res_hdrs res_top None of
             Inl e \<Rightarrow> (Inl e, c1)
           | Inr (res_top1, res_len) \<Rightarrow>
               let (d, added) = choose_delimit (connection_hdr c1) res_len (req_version c1);
                   c2 = c1\<lparr>res_delimit := Some d\<rparr>;
                   res_top2 = res_top1 @ added @ [linesep]
               in case tcp_conn c2 of
                    None \<Rightarrow> (Inl AttributeError, c2)
                  | Some t \<Rightarrow>
                      (Inr (), c2\<lparr>tcp_conn := Some (tcp_write t (join linesep res_top2)),
                                  res_state := HEADERS_DONE\<rparr>))"

subsection \<open>\<open>res_body\<close>\<close>

definition res_body :: "conn \<Rightarrow> string \<Rightarrow> unit outcome" where
  "res_body c chunk =
     (if res_state c \<noteq> HEADERS_DONE then (Inl AssertionError, c)
      else if chunk = [] then (Inr (), c)
      else
        let data = (if res_delimit c = Some CHUNKED
                    then drop 2 (py_hex (length chunk)) @ [CHR 0x0D, CHR 0x0A] @ chunk
                           @ [CHR 0x0D, CHR 0x0A]
                    else chunk)
        in case tcp_conn c of
             None \<Rightarrow> (Inl AttributeError, c)
           | Some t \<Rightarrow> (Inr (), c\<lparr>tcp_conn := Some (tcp_write t data)\<rparr>))"

subsection \<open>\<open>res_done\<close>\<close>

definition res_done :: "conn \<Rightarrow> error_dict option \<Rightarrow> unit outcome" where
  "res_done c err =
     (if res_state c \<noteq> HEADERS_DONE then (Inl AssertionError, c)
      else
        let c1 = c\<lparr>res_state := WAITING\<rparr> in
        if err \<noteq> None then
          (case tcp_conn c1 of
             None \<Rightarrow> (Inl AttributeError, c1)
           | Some t \<Rightarrow> (Inr (), c1\<lparr>tcp_conn := Some (tcp_close t)\<rparr>))
        else if res_delimit c1 = Some NONE then (Inr (), c1)
        else if res_delimit c1 = Some CHUNKED then
          (case tcp_conn c1 of
             None \<Rightarrow> (Inl AttributeError, c1)
           | Some t \<Rightarrow>
               (Inr (), c1\<lparr>tcp_conn :=
                  Some (tcp_write t [CHR ''0'', CHR 0x0D, CHR 0x0A, CHR 0x0D, CHR 0x0A])\<rparr>))
        else if res_delimit c1 = Some CLOSE then
          (case tcp_conn c1 of
             None \<Rightarrow> (Inl AttributeError, c1)
           | Some t \<Rightarrow> (Inr (), c1\<lparr>tcp_conn := Some (tcp_close t)\<rparr>))
        else if res_delimit c1 = Some COUNTED then (Inr (), c1)
        else (Inl AssertionError, c1))"

subsection \<open>\<open>_handle_error\<close>\<close>

text \<open>
  \<open>detail\<close> is \<open>None\<close> or a string, and \<open>if detail:\<close> holds for a non-empty string. The
  method ends with \<open>self.res_done()\<close>: \<open>res_done\<close> has the required parameter \<open>err\<close>, so
  the call raises TypeError before the body of \<open>res_done\<close> runs.
\<close>

definition handle_error ::
  "string list \<Rightarrow> conn \<Rightarrow> error_dict \<Rightarrow> string option \<Rightarrow> unit outcome" where
  "handle_error hop c err detail_arg =
     (if res_state c \<noteq> WAITING then (Inl AssertionError, c)
      else
        let err1 = (case detail_arg of
                      None \<Rightarrow> err
                    | Some d \<Rightarrow> if d \<noteq> [] then err\<lparr>detail := Some d\<rparr> else err);
            (status_code, status_phrase) =
               (case status err1 of None \<Rightarrow> (''400'', ''Bad Request'') | Some st \<Rightarrow> st);
            hdrs = [(''Content-Type'', ''text/plain'')];
            body = desc err1 @ (case detail err1 of None \<Rightarrow> [] | Some d \<Rightarrow> '' ('' @ d @ '')'')
        in case res_start hop c status_code status_phrase hdrs dummy of
             (Inl e, c1) \<Rightarrow> (Inl e, c1)
           | (Inr _, c1) \<Rightarrow>
               (case res_body c1 body of
                  (Inl e, c2) \<Rightarrow> (Inl e, c2)
                | (Inr _, c2) \<Rightarrow> (Inl TypeError, c2)))"

subsection \<open>\<open>_input_start\<close>\<close>

text \<open>\<open>s.split(None, 1)\<close>: at most one split at a run of white space, leading white space dropped.\<close>

definition split_ws1 :: "string \<Rightarrow> string list" where
  "split_ws1 s =
     (let s1 = dropWhile is_space s in
      if s1 = [] then []
      else
        let w = takeWhile (\<lambda>c. \<not> is_space c) s1;
            r = dropWhile is_space (dropWhile (\<lambda>c. \<not> is_space c) s1)
        in if r = [] then [w] else [w, r])"

text \<open>\<open>s.rsplit(None, 1)\<close>: the same from the right.\<close>

definition rsplit_ws1 :: "string \<Rightarrow> string list" where
  "rsplit_ws1 s =
     (let s1 = dropWhile is_space (rev s) in
      if s1 = [] then []
      else
        let w = rev (takeWhile (\<lambda>c. \<not> is_space c) s1);
            r = dropWhile is_space (dropWhile (\<lambda>c. \<not> is_space c) s1)
        in if r = [] then [w] else [rev r, w])"

text \<open>\<open>s.rsplit('/', 1)\<close>\<close>

definition rsplit_slash1 :: "string \<Rightarrow> string list" where
  "rsplit_slash1 s =
     (if CHR ''/'' \<in> set s
      then [rev (tl (dropWhile (\<lambda>c. c \<noteq> CHR ''/'') (rev s))),
            rev (takeWhile (\<lambda>c. c \<noteq> CHR ''/'') (rev s))]
      else [s])"

text \<open>
  The \<open>try\<close> block of lines 235 to 237. Unpacking a list that has not exactly two
  elements raises ValueError, \<open>[1]\<close> on a one-element list raises IndexError, and
  \<open>float\<close> raises ValueError on a string it rejects. \<open>float\<close> on strings is the parameter
  \<open>py_float\<close> (\<open>None\<close> for ValueError).
\<close>

definition parse_top_line ::
  "(string \<Rightarrow> pyfloat option) \<Rightarrow> string \<Rightarrow> py_error + (string \<times> string \<times> pyfloat)" where
  "parse_top_line py_float top_line =
     (case split_ws1 top_line of
        [method, req_line] \<Rightarrow>
          (case rsplit_ws1 req_line of
             [uri, version_token] \<Rightarrow>
               (case rsplit_slash1 version_token of
                  [_, vs] \<Rightarrow>
                    (case py_float vs of
                       None \<Rightarrow> Inl ValueError
                     | Some v \<Rightarrow> Inr (method, uri, v))
                | _ \<Rightarrow> Inl IndexError)
           | _ \<Rightarrow> Inl ValueError)
      | _ \<Rightarrow> Inl ValueError)"

text \<open>
  \<open>(content_length) or (transfer_codes != [])\<close>: Python's \<open>or\<close> gives its first operand
  when that is true (an int other than 0), else its second. \<open>content_length\<close> is an int
  or \<open>None\<close>.
\<close>

datatype pyval = PyInt int | PyBool bool

fun py_truthy :: "pyval \<Rightarrow> bool" where
  "py_truthy (PyInt n) = (n \<noteq> 0)"
| "py_truthy (PyBool b) = b"

definition allows_body :: "int option \<Rightarrow> string list \<Rightarrow> pyval" where
  "allows_body content_length transfer_codes =
     (case content_length of
        None \<Rightarrow> PyBool (transfer_codes \<noteq> [])
      | Some n \<Rightarrow> if n \<noteq> 0 then PyInt n else PyBool (transfer_codes \<noteq> []))"

text \<open>
  The application's request handler is a parameter: called with the method, the URI and
  the headers, it may use \<open>res_start\<close>, \<open>res_body\<close> and \<open>res_done\<close> on the connection before
  it returns its two callbacks, or raise.
\<close>

type_synonym handler =
  "string \<Rightarrow> string \<Rightarrow> (string \<times> string) list \<Rightarrow> conn \<Rightarrow> (callback \<times> callback) outcome"

definition input_start ::
  "(string \<Rightarrow> pyfloat option) \<Rightarrow> handler \<Rightarrow> string list \<Rightarrow> error_dict \<Rightarrow> error_dict \<Rightarrow> conn
     \<Rightarrow> string \<Rightarrow> (string \<times> string) list \<Rightarrow> string list \<Rightarrow> string list \<Rightarrow> int option
     \<Rightarrow> pyval outcome" where
  "input_start py_float request_handler hop ERR_HTTP_VERSION ERR_HOST_REQ c
       top_line hdr_tuples conn_tokens transfer_codes content_length =
     (if input_state c \<noteq> WAITING then (Inl AssertionError, c)
      else case parse_top_line py_float top_line of
        Inl e \<Rightarrow>
          (if e = ValueError then
             (case handle_error hop c ERR_HTTP_VERSION (Some top_line) of
                (Inl e', c1) \<Rightarrow> (Inl e', c1)
              | (Inr _, c1) \<Rightarrow> (Inl ValueError, c1))
           else (Inl e, c))
      | Inr (method, uri, v) \<Rightarrow>
          let c1 = c\<lparr>req_version := Some v\<rparr> in
          if float_eq v lit_1_1
             \<and> ''host'' \<notin> set (map (\<lambda>(k, v). lower (strip k)) hdr_tuples)
          then
            (case handle_error hop c1 ERR_HOST_REQ None of
               (Inl e', c2) \<Rightarrow> (Inl e', c2)
             | (Inr _, c2) \<Rightarrow> (Inl ValueError, c2))
          else
            let c2 = c1\<lparr>meth := Some method, connection_hdr := conn_tokens\<rparr> in
            case request_handler method uri hdr_tuples c2 of
              (Inl e', c3) \<Rightarrow> (Inl e', c3)
            | (Inr (body_cb, done_cb), c3) \<Rightarrow>
                (Inr (allows_body content_length transfer_codes),
                 c3\<lparr>req_body_cb := Some body_cb, req_done_cb := Some done_cb\<rparr>))"

subsection \<open>\<open>test_handler\<close>\<close>

definition test_handler :: "string list \<Rightarrow> handler" where
  "test_handler hop method uri hdrs c =
     (case res_start hop c ''200'' ''OK'' [(''Content-Type'', ''text/plain'')] dummy of
        (Inl e, c1) \<Rightarrow> (Inl e, c1)
      | (Inr _, c1) \<Rightarrow>
          (case res_body c1 ''foo!'' of
             (Inl e, c2) \<Rightarrow> (Inl e, c2)
           | (Inr _, c2) \<Rightarrow>
               (case res_done c2 None of
                  (Inl e, c3) \<Rightarrow> (Inl e, c3)
                | (Inr _, c3) \<Rightarrow> (Inr (dummy, dummy), c3))))"

section \<open>Vocabulary of the statements\<close>

text \<open>The name \<open>res_start\<close> compares: \<open>name.strip().lower()\<close>.\<close>

definition hdr_name :: "string \<times> string \<Rightarrow> string" where
  "hdr_name h = lower (strip (fst h))"

text \<open>The values of the Content-Length headers of a header list, in order.\<close>

definition cl_values :: "(string \<times> string) list \<Rightarrow> string list" where
  "cl_values hdrs = map snd (filter (\<lambda>h. hdr_name h = ''content-length'') hdrs)"

text \<open>The length a header list declares: the parsed value of its last Content-Length.\<close>

definition declared_len :: "(string \<times> string) list \<Rightarrow> int option" where
  "declared_len hdrs = (if cl_values hdrs = [] then None else py_int (last (cl_values hdrs)))"

text \<open>The caller's header lines that are forwarded: those not named in the hop-by-hop table.\<close>

definition forwarded :: "string list \<Rightarrow> (string \<times> string) list \<Rightarrow> string list" where
  "forwarded hop hdrs =
     map (\<lambda>h. fst h @ '': '' @ snd h) (filter (\<lambda>h. hdr_name h \<notin> set hop) hdrs)"

text \<open>What the connection has written so far (nothing to tell once the transport is dropped).\<close>

definition written_of :: "conn \<Rightarrow> string list" where
  "written_of c = (case tcp_conn c of None \<Rightarrow> [] | Some t \<Rightarrow> written t)"

text \<open>
  The delimiter as the specification's selector words it: close token, else a
  Content-Length that parses as a non-negative integer, else the version, else close.
\<close>

definition spec_select_delimiter ::
  "string list \<Rightarrow> (string \<times> string) list \<Rightarrow> pyfloat option \<Rightarrow> delimit" where
  "spec_select_delimiter conn_tokens res_hdrs v =
     (if ''close'' \<in> set conn_tokens then CLOSE
      else if list_ex (\<lambda>x. case py_int x of None \<Rightarrow> False | Some n \<Rightarrow> 0 \<le> n)
                (cl_values res_hdrs) then COUNTED
      else if version_chunks v then CHUNKED
      else CLOSE)"

text \<open>
  The "expect body" value as the specification words it: a Content-Length is present or
  the transfer-coding list is not empty.
\<close>

definition spec_expect_body :: "int option \<Rightarrow> string list \<Rightarrow> bool" where
  "spec_expect_body content_length transfer_codes =
     (case content_length of
        Some n \<Rightarrow> True
      | None \<Rightarrow> (case transfer_codes of [] \<Rightarrow> False | x # xs \<Rightarrow> True))"

subsection \<open>A reference decoder of one chunk\<close>

text \<open>
  A receiver of the chunked coding reads the chunk size, hexadecimal in either case, up
  to CR LF, then that many bytes, then CR LF. The decoder returns the chunk's bytes and
  the input that follows the chunk.
\<close>

definition hex_val :: "char \<Rightarrow> nat option" where
  "hex_val c =
     map_of (zip ''0123456789abcdefABCDEF''
               [0, 1, 2, 3, 4, 5, 6, 7, 8, 9, 10, 11, 12, 13, 14, 15, 10, 11, 12, 13, 14, 15]) c"

definition hex_step :: "nat option \<Rightarrow> char \<Rightarrow> nat option" where
  "hex_step acc c =
     (case acc of
        None \<Rightarrow> None
      | Some a \<Rightarrow> (case hex_val c of None \<Rightarrow> None | Some d \<Rightarrow> Some (16 * a + d)))"

definition parse_hex :: "string \<Rightarrow> nat option" where
  "parse_hex s = (if s = [] then None else foldl hex_step (Some 0) s)"

definition ref_chunk_decode :: "string \<Rightarrow> (string \<times> string) option" where
  "ref_chunk_decode s =
     (let size_line = takeWhile (\<lambda>c. c \<noteq> CHR 0x0D) s;
          rest = dropWhile (\<lambda>c. c \<noteq> CHR 0x0D) s
      in case parse_hex size_line of
           None \<Rightarrow> None
         | Some n \<Rightarrow>
             if n + 4 \<le> length rest \<and> take 2 rest = [CHR 0x0D, CHR 0x0A]
                \<and> take 2 (drop (2 + n) rest) = [CHR 0x0D, CHR 0x0A]
             then Some (take n (drop 2 rest), drop (n + 4) rest)
             else None)"

subsection \<open>The header lines a receiver sees\<close>

text \<open>A header block cut at every CR LF.\<close>

fun split_crlf :: "string \<Rightarrow> string \<Rightarrow> string list" where
  "split_crlf acc [] = [acc]"
| "split_crlf acc [c] = [acc @ [c]]"
| "split_crlf acc (c # d # cs) =
     (if c = CHR 0x0D \<and> d = CHR 0x0A then acc # split_crlf [] cs
      else split_crlf (acc @ [c]) (d # cs))"

definition header_lines :: "string \<Rightarrow> string list" where
  "header_lines block = split_crlf [] block"

definition is_cl_line :: "string \<Rightarrow> bool" where
  "is_cl_line l = (lower (strip (takeWhile (\<lambda>c. c \<noteq> CHR '':'') l)) = ''content-length'')"

subsection \<open>Example inputs\<close>

text \<open>A transport on which nothing has happened, and a connection that has just been made.\<close>

definition t0 :: transport where
  "t0 = \<lparr>written = [], closed = False\<rparr>"

definition conn0 :: conn where
  "conn0 = init_conn t0"

text \<open>The connection while a request of version 1.1 is being handled.\<close>

definition conn_11 :: conn where
  "conn_11 = conn0\<lparr>req_version := Some lit_1_1\<rparr>"

text \<open>The same, the request carrying the connection token \<open>close\<close>.\<close>

definition conn_close :: conn where
  "conn_close = conn_11\<lparr>connection_hdr := [''close'']\<rparr>"

text \<open>A connection with a response open.\<close>

definition conn_open :: "delimit \<Rightarrow> conn" where
  "conn_open d = conn_11\<lparr>res_state := HEADERS_DONE, res_delimit := Some d\<rparr>"

text \<open>
  Two hop-by-hop tables: the headers HTTP/1.1 names hop-by-hop, and the same with
  Content-Length, which \<open>res_start\<close> writes itself.
\<close>

definition hop_http :: "string list" where
  "hop_http = [''connection'', ''keep-alive'', ''proxy-authenticate'', ''proxy-authorization'',
               ''te'', ''trailers'', ''transfer-encoding'', ''upgrade'']"

definition hop_with_cl :: "string list" where
  "hop_with_cl = ''content-length'' # hop_http"

text \<open>Error dictionaries in the shape of the module \<open>error\<close>.\<close>

definition err_host_req :: error_dict where
  "err_host_req = \<lparr>desc = ''Host header required'', status = None, detail = None\<rparr>"

definition err_http_version :: error_dict where
  "err_http_version =
     \<lparr>desc = ''HTTP Version Not Supported'',
      status = Some (''505'', ''HTTP Version Not Supported''), detail = None\<rparr>"

text \<open>\<open>float\<close> on the two version tokens of the examples.\<close>

definition float_example :: "string \<Rightarrow> pyfloat option" where
  "float_example s =
     (if s = ''1.1'' then Some lit_1_1 else if s = ''1.0'' then Some (Finite 1) else None)"

section \<open>The header loop of \<open>res_start\<close>\<close>

text \<open>
  The loop returns exactly when every Content-Length value parses: then it has appended
  the forwarded lines in order and holds the last parsed length; otherwise it raises
  ValueError.
\<close>

lemma res_hdrs_loop_parses:
  "list_all (\<lambda>v. py_int v \<noteq> None) (cl_values hdrs) \<Longrightarrow>
   res_hdrs_loop hop hdrs rtop rlen =
     Inr (rtop @ forwarded hop hdrs,
          if cl_values hdrs = [] then rlen else py_int (last (cl_values hdrs)))"
proof (induction hdrs arbitrary: rtop rlen)
  case Nil
  then show ?case by (simp add: cl_values_def forwarded_def)
next
  case (Cons h rest)
  obtain name val where h: "h = (name, val)" by (cases h)
  from Cons.prems have rest: "list_all (\<lambda>v. py_int v \<noteq> None) (cl_values rest)"
    by (simp add: cl_values_def split: if_splits)
  show ?case
  proof (cases "lower (strip name) = ''content-length''")
    case True
    with Cons.prems h obtain n where n: "py_int val = Some n"
      by (auto simp: cl_values_def hdr_name_def)
    show ?thesis
      using True n h Cons.IH [OF rest]
      by (simp add: cl_values_def forwarded_def hdr_name_def)
  next
    case False
    show ?thesis
      using False h Cons.IH [OF rest]
      by (simp add: cl_values_def forwarded_def hdr_name_def)
  qed
qed

lemma res_hdrs_loop_rejects:
  "\<not> list_all (\<lambda>v. py_int v \<noteq> None) (cl_values hdrs) \<Longrightarrow>
   res_hdrs_loop hop hdrs rtop rlen = Inl ValueError"
proof (induction hdrs arbitrary: rtop rlen)
  case Nil
  then show ?case by (simp add: cl_values_def)
next
  case (Cons h rest)
  obtain name val where h: "h = (name, val)" by (cases h)
  show ?case
  proof (cases "lower (strip name) = ''content-length''")
    case True
    show ?thesis
    proof (cases "py_int val")
      case None
      with True h show ?thesis by simp
    next
      case (Some n)
      with Cons.prems True h have "\<not> list_all (\<lambda>v. py_int v \<noteq> None) (cl_values rest)"
        by (simp add: cl_values_def hdr_name_def)
      from Cons.IH [OF this] True Some h show ?thesis by simp
    qed
  next
    case False
    with Cons.prems h have "\<not> list_all (\<lambda>v. py_int v \<noteq> None) (cl_values rest)"
      by (simp add: cl_values_def hdr_name_def)
    from Cons.IH [OF this] False h show ?thesis by simp
  qed
qed

section \<open>What \<open>res_start\<close> does in phase WAITING\<close>

lemma res_start_waiting:
  assumes "res_state c = WAITING"
    and "list_all (\<lambda>v. py_int v \<noteq> None) (cl_values res_hdrs)"
  shows "res_start hop c code phrase res_hdrs cb =
     (let ch = choose_delimit (connection_hdr c) (declared_len res_hdrs) (req_version c);
          c2 = c\<lparr>res_body_pause_cb := Some cb, res_delimit := Some (fst ch)\<rparr>
      in case tcp_conn c of
           None \<Rightarrow> (Inl AttributeError, c2)
         | Some t \<Rightarrow>
             (Inr (), c2\<lparr>tcp_conn := Some (tcp_write t (join linesep
                 ((''HTTP/1.1 '' @ code @ '' '' @ phrase) # forwarded hop res_hdrs
                    @ snd ch @ [linesep]))),
               res_state := HEADERS_DONE\<rparr>))"
  using assms
  by (simp add: res_start_def res_hdrs_loop_parses declared_len_def Let_def
      split: prod.splits option.splits)

lemma res_start_bad_length:
  assumes "res_state c = WAITING"
    and "\<not> list_all (\<lambda>v. py_int v \<noteq> None) (cl_values res_hdrs)"
  shows "res_start hop c code phrase res_hdrs cb =
           (Inl ValueError, c\<lparr>res_body_pause_cb := Some cb\<rparr>)"
  using assms by (simp add: res_start_def res_hdrs_loop_rejects)

lemma bad_length_in_list:
  assumes "(name, val) \<in> set res_hdrs"
    and "lower (strip name) = ''content-length''"
    and "py_int val = None"
  shows "\<not> list_all (\<lambda>v. py_int v \<noteq> None) (cl_values res_hdrs)"
  using assms by (force simp: cl_values_def hdr_name_def list_all_iff)

lemma res_start_returns_open:
  assumes "res_start hop c code phrase res_hdrs cb = (Inr u, c')"
  shows "res_state c' = HEADERS_DONE"
proof (cases "res_state c = WAITING")
  case False
  with assms show ?thesis by (simp add: res_start_def)
next
  case True
  show ?thesis
  proof (cases "list_all (\<lambda>v. py_int v \<noteq> None) (cl_values res_hdrs)")
    case False
    from res_start_bad_length [OF True False] assms show ?thesis by simp
  next
    case parses: True
    from res_start_waiting [OF True parses] assms show ?thesis
      by (auto simp: Let_def split: option.splits)
  qed
qed

text \<open>The example: the first response on a connection handling a 1.1 request.\<close>

lemma conn_11_started:
  "res_start hop_http conn_11 ''200'' ''OK'' [(''Content-Type'', ''text/plain'')] dummy =
     (Inr (), conn_11\<lparr>res_body_pause_cb := Some dummy, res_delimit := Some CHUNKED,
        tcp_conn := Some (tcp_write t0 (join linesep
          [''HTTP/1.1 200 OK'', ''Content-Type: text/plain'', ''Transfer-Encoding: chunked'',
           linesep])),
        res_state := HEADERS_DONE\<rparr>)"
  apply (subst res_start_waiting)
  apply (simp add: conn_11_def conn0_def init_conn_def)
   apply (simp add: cl_values_def hdr_name_def lower_def lower_char_def strip_def is_space_def)
  apply (simp add: conn_11_def conn0_def init_conn_def choose_delimit_def declared_len_def cl_values_def hdr_name_def lower_def lower_char_def strip_def is_space_def
   forwarded_def hop_http_def version_chunks_def lit_1_1_def lit_2_0_def float_ge_def)
  done

section \<open>One response at a time\<close>

text \<open>
  C2. While a response is open, that is in any phase but WAITING, \<open>res_start\<close> fails its
  assertion and leaves the connection as it was. A call of \<open>res_start\<close> that returns
  leaves the response open, so a second call before \<open>res_done\<close> is rejected in this
  way, whatever its arguments.
\<close>

theorem res_start_rejected_while_open:
  "(res_state c \<noteq> WAITING \<longrightarrow>
      res_start hop c code phrase res_hdrs cb = (Inl AssertionError, c))
   \<and> (res_start hop c code phrase res_hdrs cb = (Inr (), c') \<longrightarrow>
      res_start hop' c' code' phrase' res_hdrs' cb' = (Inl AssertionError, c'))"
proof (intro conjI impI)
  assume "res_state c \<noteq> WAITING"
  then show "res_start hop c code phrase res_hdrs cb = (Inl AssertionError, c)"
    by (simp add: res_start_def)
next
  assume "res_start hop c code phrase res_hdrs cb = (Inr (), c')"
  then have "res_state c' = HEADERS_DONE" by (rule res_start_returns_open)
  then show "res_start hop' c' code' phrase' res_hdrs' cb' = (Inl AssertionError, c')"
    by (simp add: res_start_def)
qed

theorem res_start_rejected_while_open_witness:
  "res_state (conn_open CHUNKED) \<noteq> WAITING
   \<and> res_start hop_http (conn_open CHUNKED) ''200'' ''OK'' [] dummy
       = (Inl AssertionError, conn_open CHUNKED)
   \<and> fst (res_start hop_http conn_11 ''200'' ''OK'' [(''Content-Type'', ''text/plain'')] dummy)
       = Inr ()
   \<and> fst (res_start hop_http
        (snd (res_start hop_http conn_11 ''200'' ''OK'' [(''Content-Type'', ''text/plain'')] dummy))
        ''404'' ''Not Found'' [] dummy) = Inl AssertionError"
  using res_start_rejected_while_open [of "conn_open CHUNKED" hop_http "''200''" "''OK''" "[]" dummy]
    res_start_rejected_while_open [of conn_11 hop_http "''200''" "''OK''"
      "[(''Content-Type'', ''text/plain'')]" dummy
      "snd (res_start hop_http conn_11 ''200'' ''OK'' [(''Content-Type'', ''text/plain'')] dummy)"
      hop_http "''404''" "''Not Found''" "[]" dummy]
  by (simp add: conn_11_started conn_open_def)

section \<open>A Content-Length that is not an integer\<close>

text \<open>
  C8. When the caller's header list has a Content-Length header whose value \<open>int\<close>
  rejects, \<open>res_start\<close> fails: with ValueError in phase WAITING (with the assertion's
  AssertionError in any other phase). It does not go on to choose a delimiter: the
  connection's delimiter is the one it had, and nothing is written to the transport.
\<close>

theorem bad_content_length_fails:
  assumes "(name, val) \<in> set res_hdrs"
    and "lower (strip name) = ''content-length''"
    and "py_int val = None"
  shows "fst (res_start hop c code phrase res_hdrs cb)
           = Inl (if res_state c = WAITING then ValueError else AssertionError)
       \<and> res_delimit (snd (res_start hop c code phrase res_hdrs cb)) = res_delimit c
       \<and> tcp_conn (snd (res_start hop c code phrase res_hdrs cb)) = tcp_conn c"
proof (cases "res_state c = WAITING")
  case True
  from bad_length_in_list [OF assms] res_start_bad_length [OF True]
  show ?thesis using True by simp
next
  case False
  then show ?thesis by (simp add: res_start_def)
qed

lemma py_int_chunked: "py_int ''chunked'' = None"
  by (simp add: py_int_def strip_def is_space_def is_digit_def)

lemma name_content_length: "lower (strip ''Content-Length'') = ''content-length''"
  by (simp add: lower_def lower_char_def strip_def is_space_def)

theorem bad_content_length_fails_witness:
  "(''Content-Length'', ''chunked'') \<in> set [(''Content-Length'', ''chunked'')]
   \<and> lower (strip ''Content-Length'') = ''content-length''
   \<and> py_int ''chunked'' = None
   \<and> fst (res_start hop_http conn_11 ''200'' ''OK'' [(''Content-Length'', ''chunked'')] dummy)
       = Inl ValueError
   \<and> res_delimit (snd (res_start hop_http conn_11 ''200'' ''OK''
        [(''Content-Length'', ''chunked'')] dummy)) = None
   \<and> tcp_conn (snd (res_start hop_http conn_11 ''200'' ''OK''
        [(''Content-Length'', ''chunked'')] dummy)) = Some t0"
  using bad_content_length_fails [of "''Content-Length''" "''chunked''"
      "[(''Content-Length'', ''chunked'')]" hop_http conn_11 "''200''" "''OK''" dummy]
  by (simp add: py_int_chunked name_content_length conn_11_def conn0_def init_conn_def)

text \<open>
  C10. In phase WAITING, a Content-Length value that \<open>int\<close> rejects makes \<open>res_start\<close> raise
  ValueError with the connection changed in the pause callback only: nothing has been
  written and the phase is still WAITING. A following \<open>res_start\<close> on the connection
  passes the assertion, and returns when its own Content-Length values parse and the
  transport is there.
\<close>

theorem res_start_failure_leaves_waiting:
  assumes "res_state c = WAITING"
    and "(name, val) \<in> set res_hdrs"
    and "lower (strip name) = ''content-length''"
    and "py_int val = None"
  shows "res_start hop c code phrase res_hdrs cb
           = (Inl ValueError, c\<lparr>res_body_pause_cb := Some cb\<rparr>)
       \<and> written_of (snd (res_start hop c code phrase res_hdrs cb)) = written_of c
       \<and> res_state (snd (res_start hop c code phrase res_hdrs cb)) = WAITING
       \<and> fst (res_start hop' (snd (res_start hop c code phrase res_hdrs cb))
                code' phrase' res_hdrs' cb') \<noteq> Inl AssertionError
       \<and> (list_all (\<lambda>v. py_int v \<noteq> None) (cl_values res_hdrs') \<and> tcp_conn c \<noteq> None \<longrightarrow>
            fst (res_start hop' (snd (res_start hop c code phrase res_hdrs cb))
                   code' phrase' res_hdrs' cb') = Inr ())"
proof -
  let ?c1 = "c\<lparr>res_body_pause_cb := Some cb\<rparr>"
  have bad: "\<not> list_all (\<lambda>v. py_int v \<noteq> None) (cl_values res_hdrs)"
    using assms(2-4) by (rule bad_length_in_list)
  have first: "res_start hop c code phrase res_hdrs cb = (Inl ValueError, ?c1)"
    using assms(1) bad by (rule res_start_bad_length)
  have w1: "res_state ?c1 = WAITING" using assms(1) by simp
  have second: "fst (res_start hop' ?c1 code' phrase' res_hdrs' cb') \<noteq> Inl AssertionError"
  proof (cases "list_all (\<lambda>v. py_int v \<noteq> None) (cl_values res_hdrs')")
    case True
    show ?thesis
      by (simp add: res_start_waiting [OF w1 True] Let_def split: option.splits)
  next
    case False
    show ?thesis by (simp add: res_start_bad_length [OF w1 False])
  qed
  have third: "fst (res_start hop' ?c1 code' phrase' res_hdrs' cb') = Inr ()"
    if "list_all (\<lambda>v. py_int v \<noteq> None) (cl_values res_hdrs')" and "tcp_conn c \<noteq> None"
    using that by (auto simp: res_start_waiting [OF w1 that(1)] Let_def split: option.splits)
  show ?thesis
    using first second third assms(1) by (simp add: written_of_def)
qed

theorem res_start_failure_leaves_waiting_witness:
  "res_state conn_11 = WAITING
   \<and> (''content-length '', ''12 bytes'')
        \<in> set [(''Content-Type'', ''text/plain''), (''content-length '', ''12 bytes'')]
   \<and> lower (strip ''content-length '') = ''content-length''
   \<and> py_int ''12 bytes'' = None
   \<and> res_start hop_http conn_11 ''200'' ''OK''
        [(''Content-Type'', ''text/plain''), (''content-length '', ''12 bytes'')] dummy
       = (Inl ValueError, conn_11\<lparr>res_body_pause_cb := Some dummy\<rparr>)
   \<and> written_of (conn_11\<lparr>res_body_pause_cb := Some dummy\<rparr>) = []
   \<and> fst (res_start hop_http (conn_11\<lparr>res_body_pause_cb := Some dummy\<rparr>) ''200'' ''OK''
        [(''Content-Length'', ''12'')] dummy) = Inr ()"
proof -
  have h1: "res_state conn_11 = WAITING"
    by (simp add: conn_11_def conn0_def init_conn_def)
  have h2: "(''content-length '', ''12 bytes'')
      \<in> set [(''Content-Type'', ''text/plain''), (''content-length '', ''12 bytes'')]"
    by simp
  have h3: "lower (strip ''content-length '') = ''content-length''"
    by (simp add: lower_def lower_char_def strip_def is_space_def)
  have h4: "py_int ''12 bytes'' = None"
    by (simp add: py_int_def strip_def is_space_def is_digit_def)
  have h5: "list_all (\<lambda>v. py_int v \<noteq> None) (cl_values [(''Content-Length'', ''12'')])"
    by (simp add: cl_values_def hdr_name_def name_content_length py_int_def strip_def
        is_space_def is_digit_def)
  have h6: "tcp_conn conn_11 \<noteq> None"
    by (simp add: conn_11_def conn0_def init_conn_def)
  have h7: "written_of (conn_11\<lparr>res_body_pause_cb := Some dummy\<rparr>) = []"
    by (simp add: written_of_def conn_11_def conn0_def init_conn_def t0_def)
  from res_start_failure_leaves_waiting [OF h1 h2 h3 h4, of hop_http "''200''" "''OK''" dummy
      hop_http "''200''" "''OK''" "[(''Content-Length'', ''12'')]" dummy]
  show ?thesis using h1 h2 h3 h4 h5 h6 h7 by auto
qed

section \<open>The choice of the delimiter\<close>

lemma declared_len_parses:
  assumes "list_all (\<lambda>v. py_int v \<noteq> None) (cl_values hdrs)" and "cl_values hdrs \<noteq> []"
  shows "\<exists>n. declared_len hdrs = Some n"
proof -
  from assms(2) have "last (cl_values hdrs) \<in> set (cl_values hdrs)" by simp
  with assms(1) have "py_int (last (cl_values hdrs)) \<noteq> None" by (simp add: list_all_iff)
  with assms(2) show ?thesis by (auto simp: declared_len_def)
qed

text \<open>
  C1, as amended. For a call of \<open>res_start\<close> in phase WAITING whose Content-Length values
  all parse as integers, the delimiter is Close when the request's connection tokens
  contain \<open>close\<close>; otherwise Counted when the caller's list has a Content-Length header
  (any integer, a negative one too); otherwise Chunked when the request's version is at
  least 1.1 and below 2.0, and then the line \<open>Transfer-Encoding: chunked\<close> follows the
  forwarded lines; otherwise Close, and then the line \<open>Connection: close\<close> follows them.
\<close>

theorem res_start_delimiter_priority:
  assumes "res_state c = WAITING"
    and "list_all (\<lambda>v. py_int v \<noteq> None) (cl_values res_hdrs)"
  shows "res_delimit (snd (res_start hop c code phrase res_hdrs cb)) =
           Some (if ''close'' \<in> set (connection_hdr c) then CLOSE
                 else if cl_values res_hdrs \<noteq> [] then COUNTED
                 else if version_chunks (req_version c) then CHUNKED
                 else CLOSE)
       \<and> (tcp_conn c \<noteq> None \<and> ''close'' \<notin> set (connection_hdr c) \<and> cl_values res_hdrs = [] \<longrightarrow>
            written_of (snd (res_start hop c code phrase res_hdrs cb)) =
              written_of c @ [join linesep
                ((''HTTP/1.1 '' @ code @ '' '' @ phrase) # forwarded hop res_hdrs
                   @ [if version_chunks (req_version c) then ''Transfer-Encoding: chunked''
                      else ''Connection: close'', linesep])])"
proof (cases "cl_values res_hdrs = []")
  case True
  then have "declared_len res_hdrs = None" by (simp add: declared_len_def)
  with True show ?thesis
    by (auto simp: res_start_waiting [OF assms] choose_delimit_def Let_def written_of_def
        tcp_write_def split: option.splits)
next
  case False
  with assms(2) obtain n where "declared_len res_hdrs = Some n"
    using declared_len_parses by blast
  with False show ?thesis
    by (auto simp: res_start_waiting [OF assms] choose_delimit_def Let_def split: option.splits)
qed

lemma conn_11_facts:
  "res_state conn_11 = WAITING" "tcp_conn conn_11 = Some t0" "connection_hdr conn_11 = []"
  "req_version conn_11 = Some lit_1_1" "written_of conn_11 = []"
  by (simp_all add: conn_11_def conn0_def init_conn_def written_of_def t0_def)

lemma version_chunks_1_1: "version_chunks (Some lit_1_1)"
  by (simp add: version_chunks_def lit_1_1_def lit_2_0_def float_ge_def)

lemma name_content_type: "lower (strip ''Content-Type'') = ''content-type''"
  by (simp add: lower_def lower_char_def strip_def is_space_def)

theorem res_start_delimiter_priority_witness:
  "res_state conn_11 = WAITING
   \<and> list_all (\<lambda>v. py_int v \<noteq> None) (cl_values [(''Content-Type'', ''text/plain'')])
   \<and> res_delimit (snd (res_start hop_http conn_11 ''200'' ''OK''
         [(''Content-Type'', ''text/plain'')] dummy)) = Some CHUNKED
   \<and> written_of (snd (res_start hop_http conn_11 ''200'' ''OK''
         [(''Content-Type'', ''text/plain'')] dummy)) =
       [join linesep [''HTTP/1.1 200 OK'', ''Content-Type: text/plain'',
          ''Transfer-Encoding: chunked'', linesep]]"
proof -
  have h1: "res_state conn_11 = WAITING" by (rule conn_11_facts)
  have h2: "list_all (\<lambda>v. py_int v \<noteq> None) (cl_values [(''Content-Type'', ''text/plain'')])"
    by (simp add: cl_values_def hdr_name_def name_content_type)
  have h3: "cl_values [(''Content-Type'', ''text/plain'')] = []"
    by (simp add: cl_values_def hdr_name_def name_content_type)
  have h4: "forwarded hop_http [(''Content-Type'', ''text/plain'')] = [''Content-Type: text/plain'']"
    by (simp add: forwarded_def hdr_name_def name_content_type hop_http_def)
  from res_start_delimiter_priority [OF h1 h2, of hop_http "''200''" "''OK''" dummy]
  show ?thesis
    using h1 h2 h3 h4 by (simp add: conn_11_facts version_chunks_1_1)
qed

text \<open>
  As the claim words it, a Content-Length of \<open>-5\<close> is no non-negative integer, so on a 1.1
  request without the \<open>close\<close> token the selector would go on to Chunked. \<open>res_start\<close>
  tests \<open>res_len is not None\<close> only and selects Counted.
\<close>

lemma py_int_minus_5: "py_int ''-5'' = Some (- 5)"
  by (simp add: py_int_def strip_def is_space_def is_digit_def digits_val_def digit_val_def)

theorem negative_length_is_counted:
  "res_delimit (snd (res_start hop_http conn_11 ''200'' ''OK'' [(''Content-Length'', ''-5'')] dummy))
     = Some COUNTED
   \<and> spec_select_delimiter (connection_hdr conn_11) [(''Content-Length'', ''-5'')]
       (req_version conn_11) = CHUNKED"
proof -
  have h2: "list_all (\<lambda>v. py_int v \<noteq> None) (cl_values [(''Content-Length'', ''-5'')])"
    by (simp add: cl_values_def hdr_name_def name_content_length py_int_minus_5)
  have "res_delimit (snd (res_start hop_http conn_11 ''200'' ''OK''
          [(''Content-Length'', ''-5'')] dummy)) = Some COUNTED"
    by (simp add: res_start_waiting [OF conn_11_facts(1) h2] conn_11_facts Let_def
        choose_delimit_def declared_len_def cl_values_def hdr_name_def name_content_length
        py_int_minus_5)
  moreover have "spec_select_delimiter (connection_hdr conn_11) [(''Content-Length'', ''-5'')]
       (req_version conn_11) = CHUNKED"
    by (simp add: spec_select_delimiter_def conn_11_facts cl_values_def hdr_name_def
        name_content_length py_int_minus_5 version_chunks_1_1)
  ultimately show ?thesis by simp
qed

section \<open>\<open>int\<close> reads back what \<open>str\<close> writes\<close>

lemma digit_char_props:
  assumes "d < 10"
  shows "is_digit (digit_char d)" and "digit_val (digit_char d) = d"
    and "\<not> is_space (digit_char d)"
proof -
  from assms have "d \<in> {0, 1, 2, 3, 4, 5, 6, 7, 8, 9}" by auto
  then show "is_digit (digit_char d)" and "digit_val (digit_char d) = d"
    and "\<not> is_space (digit_char d)"
    by (auto simp: is_digit_def digit_val_def digit_char_def is_space_def)
qed

lemma dec_digits_props:
  "dec_digits n \<noteq> [] \<and> list_all is_digit (dec_digits n) \<and> digits_val (dec_digits n) = n"
proof (induction n rule: dec_digits.induct)
  case (1 n)
  show ?case
  proof (cases "n < 10")
    case True
    then show ?thesis
      by (simp add: dec_digits.simps [of n] digit_char_props digits_val_def)
  next
    case False
    have m: "n mod 10 < 10" by simp
    from False 1 have ih: "list_all is_digit (dec_digits (n div 10))"
      "digits_val (dec_digits (n div 10)) = n div 10" by simp_all
    from False ih m show ?thesis
      by (simp add: dec_digits.simps [of n] digit_char_props digits_val_def)
  qed
qed

lemma strip_no_space:
  assumes "s \<noteq> []" and "\<not> is_space (hd s)" and "\<not> is_space (last s)"
  shows "strip s = s"
proof -
  from assms(2) have a: "dropWhile is_space s = s" by (simp add: dropWhile_eq_self_iff)
  from assms(1,3) have "dropWhile is_space (rev s) = rev s"
    by (simp add: dropWhile_eq_self_iff hd_rev)
  with a show ?thesis by (simp add: strip_def)
qed

lemma is_digit_not_space: "is_digit ch \<Longrightarrow> \<not> is_space ch"
  by (auto simp: is_digit_def is_space_def)

lemma is_digit_not_sign: "is_digit ch \<Longrightarrow> ch \<noteq> CHR ''-'' \<and> ch \<noteq> CHR ''+''"
  by (auto simp: is_digit_def)

lemma py_int_py_str: "py_int (py_str n) = Some n"
proof -
  define m where "m = (if n < 0 then nat (- n) else nat n)"
  let ?ds = "dec_digits m"
  have ne: "?ds \<noteq> []" and dig: "list_all is_digit ?ds" and val: "digits_val ?ds = m"
    using dec_digits_props [of m] by simp_all
  from ne dig have hd_dig: "is_digit (hd ?ds)" and last_dig: "is_digit (last ?ds)"
    by (simp_all add: list_all_iff)
  show ?thesis
  proof (cases "n < 0")
    case True
    then have s: "py_str n = CHR ''-'' # ?ds" by (simp add: py_str_def m_def)
    have "strip (CHR ''-'' # ?ds) = CHR ''-'' # ?ds"
    proof (rule strip_no_space)
      show "CHR ''-'' # ?ds \<noteq> []" by simp
      show "\<not> is_space (hd (CHR ''-'' # ?ds))" by (simp add: is_space_def)
      show "\<not> is_space (last (CHR ''-'' # ?ds))"
        using ne last_dig by (simp add: is_digit_not_space)
    qed
    with s ne dig val True show ?thesis by (simp add: py_int_def m_def)
  next
    case False
    then have s: "py_str n = ?ds" by (simp add: py_str_def m_def)
    have "strip ?ds = ?ds"
      using ne hd_dig last_dig by (intro strip_no_space) (simp_all add: is_digit_not_space)
    with s ne dig val False is_digit_not_sign [OF hd_dig] show ?thesis
      by (simp add: py_int_def m_def)
  qed
qed

section \<open>The header block of a counted response\<close>

lemma forwarded_drops_hop:
  assumes "nm \<in> set hop"
  shows "forwarded hop hdrs = forwarded hop (filter (\<lambda>h. hdr_name h \<noteq> nm) hdrs)"
proof -
  have "(\<lambda>h. hdr_name h \<notin> set hop) = (\<lambda>h. hdr_name h \<noteq> nm \<and> hdr_name h \<notin> set hop)"
    using assms by auto
  then have "filter (\<lambda>h. hdr_name h \<notin> set hop) hdrs
      = filter (\<lambda>h. hdr_name h \<notin> set hop) (filter (\<lambda>h. hdr_name h \<noteq> nm) hdrs)"
    by (simp add: conj_commute)
  then show ?thesis by (simp add: forwarded_def)
qed

text \<open>
  C6, as amended. In phase WAITING with the transport there, no \<open>close\<close> token, every
  Content-Length value an integer and \<open>n\<close> the integer of the last one, \<open>res_start\<close> selects
  Counted and writes the status line, the forwarded lines, then \<open>Content-Length:\<close> with
  \<open>str(n)\<close>, then \<open>Connection: keep-alive\<close>. The length is written from the parsed
  integer: it is the caller's text when that text is what \<open>str\<close> gives for an integer.
  The caller's own Content-Length lines are not among the forwarded ones when the
  hop-by-hop table names content-length.
\<close>

theorem counted_header_block:
  assumes "res_state c = WAITING"
    and "tcp_conn c = Some t"
    and "''close'' \<notin> set (connection_hdr c)"
    and "list_all (\<lambda>v. py_int v \<noteq> None) (cl_values res_hdrs)"
    and "cl_values res_hdrs \<noteq> []"
    and "py_int (last (cl_values res_hdrs)) = Some n"
  shows "res_start hop c code phrase res_hdrs cb =
           (Inr (), c\<lparr>res_body_pause_cb := Some cb, res_delimit := Some COUNTED,
              tcp_conn := Some (tcp_write t (join linesep
                ((''HTTP/1.1 '' @ code @ '' '' @ phrase) # forwarded hop res_hdrs
                   @ [''Content-Length: '' @ py_str n, ''Connection: keep-alive'', linesep]))),
              res_state := HEADERS_DONE\<rparr>)
       \<and> (''content-length'' \<in> set hop \<longrightarrow>
            forwarded hop res_hdrs =
              forwarded hop (filter (\<lambda>h. hdr_name h \<noteq> ''content-length'') res_hdrs))
       \<and> (last (cl_values res_hdrs) = py_str m \<longrightarrow>
            ''Content-Length: '' @ py_str n = ''Content-Length: '' @ last (cl_values res_hdrs))"
proof -
  have len: "declared_len res_hdrs = Some n"
    using assms(5,6) by (simp add: declared_len_def)
  have "last (cl_values res_hdrs) = py_str m \<Longrightarrow> n = m"
    using assms(6) by (simp add: py_int_py_str)
  then show ?thesis
    using assms(2,3) len forwarded_drops_hop [of "''content-length''" hop res_hdrs]
    by (auto simp: res_start_waiting [OF assms(1,4)] choose_delimit_def Let_def)
qed

lemma py_int_007: "py_int ''007'' = Some 7"
  by (simp add: py_int_def strip_def is_space_def is_digit_def digits_val_def digit_val_def)

lemma py_int_12: "py_int ''12'' = Some 12"
  by (simp add: py_int_def strip_def is_space_def is_digit_def digits_val_def digit_val_def)

lemma py_str_7: "py_str 7 = ''7''"
  by (simp add: py_str_def dec_digits.simps digit_char_def)

lemma py_str_12: "py_str 12 = ''12''"
  by (simp add: py_str_def dec_digits.simps digit_char_def)

theorem counted_header_block_witness:
  "res_state conn_11 = WAITING
   \<and> tcp_conn conn_11 = Some t0
   \<and> ''close'' \<notin> set (connection_hdr conn_11)
   \<and> list_all (\<lambda>v. py_int v \<noteq> None)
        (cl_values [(''Content-Type'', ''text/plain''), (''Content-Length'', ''12'')])
   \<and> cl_values [(''Content-Type'', ''text/plain''), (''Content-Length'', ''12'')] \<noteq> []
   \<and> py_int (last (cl_values [(''Content-Type'', ''text/plain''), (''Content-Length'', ''12'')]))
       = Some 12
   \<and> ''content-length'' \<in> set hop_with_cl
   \<and> last (cl_values [(''Content-Type'', ''text/plain''), (''Content-Length'', ''12'')])
       = py_str 12
   \<and> res_start hop_with_cl conn_11 ''200'' ''OK''
        [(''Content-Type'', ''text/plain''), (''Content-Length'', ''12'')] dummy =
       (Inr (), conn_11\<lparr>res_body_pause_cb := Some dummy, res_delimit := Some COUNTED,
          tcp_conn := Some (tcp_write t0 (join linesep
            [''HTTP/1.1 200 OK'', ''Content-Type: text/plain'', ''Content-Length: 12'',
             ''Connection: keep-alive'', linesep])),
          res_state := HEADERS_DONE\<rparr>)"
proof -
  let ?hdrs = "[(''Content-Type'', ''text/plain''), (''Content-Length'', ''12'')]"
  have cl: "cl_values ?hdrs = [''12'']"
    by (simp add: cl_values_def hdr_name_def name_content_type name_content_length)
  have h3: "''close'' \<notin> set (connection_hdr conn_11)" by (simp add: conn_11_facts)
  have h4: "list_all (\<lambda>v. py_int v \<noteq> None) (cl_values ?hdrs)" by (simp add: cl py_int_12)
  have h5: "cl_values ?hdrs \<noteq> []" by (simp add: cl)
  have h6: "py_int (last (cl_values ?hdrs)) = Some 12" by (simp add: cl py_int_12)
  have h7: "''content-length'' \<in> set hop_with_cl" by (simp add: hop_with_cl_def)
  have h8: "last (cl_values ?hdrs) = py_str 12" by (simp add: cl py_str_12)
  have fw: "forwarded hop_with_cl ?hdrs = [''Content-Type: text/plain'']"
    by (simp add: forwarded_def hdr_name_def name_content_type name_content_length
        hop_with_cl_def hop_http_def)
  from counted_header_block [OF conn_11_facts(1) conn_11_facts(2) h3 h4 h5 h6,
      of hop_with_cl "''200''" "''OK''" dummy 12]
  show ?thesis
    using h3 h4 h5 h6 h7 h8 conn_11_facts(1,2) by (simp add: fw py_str_12)
qed

lemma conn_close_facts:
  "res_state conn_close = WAITING" "tcp_conn conn_close = Some t0"
  "connection_hdr conn_close = [''close'']" "written_of conn_close = []"
  by (simp_all add: conn_close_def conn_11_def conn0_def init_conn_def written_of_def t0_def)

text \<open>
  A caller's \<open>Content-Length: 007\<close> is not echoed as it stands. With content-length in the
  hop-by-hop table the block's only Content-Length line is \<open>Content-Length: 7\<close>; without
  it the caller's line is forwarded and the rewritten one follows, two lines in all.
\<close>

theorem length_is_rewritten:
  "map (\<lambda>w. filter is_cl_line (header_lines w))
     (written_of (snd (res_start hop_with_cl conn_11 ''200'' ''OK''
        [(''Content-Length'', ''007'')] dummy)))
     = [[''Content-Length: 7'']]
   \<and> map (\<lambda>w. filter is_cl_line (header_lines w))
     (written_of (snd (res_start hop_http conn_11 ''200'' ''OK''
        [(''Content-Length'', ''007'')] dummy)))
     = [[''Content-Length: 007'', ''Content-Length: 7'']]"
proof -
  let ?hdrs = "[(''Content-Length'', ''007'')]"
  have cl: "cl_values ?hdrs = [''007'']"
    by (simp add: cl_values_def hdr_name_def name_content_length)
  have h3: "''close'' \<notin> set (connection_hdr conn_11)" by (simp add: conn_11_facts)
  have h4: "list_all (\<lambda>v. py_int v \<noteq> None) (cl_values ?hdrs)" by (simp add: cl py_int_007)
  have h5: "cl_values ?hdrs \<noteq> []" by (simp add: cl)
  have h6: "py_int (last (cl_values ?hdrs)) = Some 7" by (simp add: cl py_int_007)
  have fw1: "forwarded hop_with_cl ?hdrs = []"
    by (simp add: forwarded_def hdr_name_def name_content_length hop_with_cl_def)
  have fw2: "forwarded hop_http ?hdrs = [''Content-Length: 007'']"
    by (simp add: forwarded_def hdr_name_def name_content_length hop_http_def)
  have l1: "filter is_cl_line (header_lines (join linesep
       [''HTTP/1.1 200 OK'', ''Content-Length: 7'', ''Connection: keep-alive'', linesep]))
     = [''Content-Length: 7'']"
    by (simp add: header_lines_def linesep_def is_cl_line_def lower_def lower_char_def
        strip_def is_space_def)
  have l2: "filter is_cl_line (header_lines (join linesep
       [''HTTP/1.1 200 OK'', ''Content-Length: 007'', ''Content-Length: 7'',
        ''Connection: keep-alive'', linesep]))
     = [''Content-Length: 007'', ''Content-Length: 7'']"
    by (simp add: header_lines_def linesep_def is_cl_line_def lower_def lower_char_def
        strip_def is_space_def)
  show ?thesis
    using l1 l2
    by (simp add: res_start_waiting [OF conn_11_facts(1) h4] conn_11_facts choose_delimit_def
        declared_len_def cl py_int_007 py_str_7 fw1 fw2 written_of_def tcp_write_def t0_def Let_def)
qed

section \<open>The request asked for \<open>close\<close>\<close>

text \<open>
  C7, as amended. In phase WAITING with the transport there and every Content-Length
  value an integer, a request whose connection tokens contain \<open>close\<close> makes \<open>res_start\<close>
  select Close and write, after the status line and the forwarded lines, the one line
  \<open>Connection: close, asked_for\<close>: the \<open>close\<close> token and a second token \<open>asked_for\<close>.
\<close>

theorem close_token_header:
  assumes "res_state c = WAITING"
    and "tcp_conn c = Some t"
    and "''close'' \<in> set (connection_hdr c)"
    and "list_all (\<lambda>v. py_int v \<noteq> None) (cl_values res_hdrs)"
  shows "res_start hop c code phrase res_hdrs cb =
           (Inr (), c\<lparr>res_body_pause_cb := Some cb, res_delimit := Some CLOSE,
              tcp_conn := Some (tcp_write t (join linesep
                ((''HTTP/1.1 '' @ code @ '' '' @ phrase) # forwarded hop res_hdrs
                   @ [''Connection: close, asked_for'', linesep]))),
              res_state := HEADERS_DONE\<rparr>)"
  using assms(2,3)
  by (simp add: res_start_waiting [OF assms(1,4)] choose_delimit_def Let_def)

theorem close_token_header_witness:
  "res_state conn_close = WAITING
   \<and> tcp_conn conn_close = Some t0
   \<and> ''close'' \<in> set (connection_hdr conn_close)
   \<and> list_all (\<lambda>v. py_int v \<noteq> None) (cl_values [(''Content-Type'', ''text/plain'')])
   \<and> res_start hop_http conn_close ''200'' ''OK'' [(''Content-Type'', ''text/plain'')] dummy =
       (Inr (), conn_close\<lparr>res_body_pause_cb := Some dummy, res_delimit := Some CLOSE,
          tcp_conn := Some (tcp_write t0 (join linesep
            [''HTTP/1.1 200 OK'', ''Content-Type: text/plain'',
             ''Connection: close, asked_for'', linesep])),
          res_state := HEADERS_DONE\<rparr>)"
proof -
  have h3: "''close'' \<in> set (connection_hdr conn_close)" by (simp add: conn_close_facts)
  have h4: "list_all (\<lambda>v. py_int v \<noteq> None) (cl_values [(''Content-Type'', ''text/plain'')])"
    by (simp add: cl_values_def hdr_name_def name_content_type)
  have fw: "forwarded hop_http [(''Content-Type'', ''text/plain'')] = [''Content-Type: text/plain'']"
    by (simp add: forwarded_def hdr_name_def name_content_type hop_http_def)
  from close_token_header [OF conn_close_facts(1) conn_close_facts(2) h3 h4,
      of hop_http "''200''" "''OK''" dummy]
  show ?thesis using h3 h4 conn_close_facts(1,2) by (simp add: fw)
qed

text \<open>
  The header block for a request with the \<open>close\<close> token, cut into lines: the line
  \<open>Connection: close\<close> is not among them.
\<close>

theorem close_line_has_extra_token:
  "map header_lines (written_of (snd (res_start hop_http conn_close ''200'' ''OK''
       [(''Content-Type'', ''text/plain'')] dummy)))
     = [[''HTTP/1.1 200 OK'', ''Content-Type: text/plain'', ''Connection: close, asked_for'',
         [], []]]
   \<and> ''Connection: close'' \<notin> set (concat (map header_lines (written_of (snd (res_start
       hop_http conn_close ''200'' ''OK'' [(''Content-Type'', ''text/plain'')] dummy)))))"
proof -
  have h4: "list_all (\<lambda>v. py_int v \<noteq> None) (cl_values [(''Content-Type'', ''text/plain'')])"
    by (simp add: cl_values_def hdr_name_def name_content_type)
  have fw: "forwarded hop_http [(''Content-Type'', ''text/plain'')] = [''Content-Type: text/plain'']"
    by (simp add: forwarded_def hdr_name_def name_content_type hop_http_def)
  have l: "header_lines (join linesep [''HTTP/1.1 200 OK'', ''Content-Type: text/plain'',
             ''Connection: close, asked_for'', linesep])
     = [''HTTP/1.1 200 OK'', ''Content-Type: text/plain'', ''Connection: close, asked_for'',
         [], []]"
    by (simp add: header_lines_def linesep_def)
  have w: "written_of (snd (res_start hop_http conn_close ''200'' ''OK''
       [(''Content-Type'', ''text/plain'')] dummy))
     = [join linesep [''HTTP/1.1 200 OK'', ''Content-Type: text/plain'',
             ''Connection: close, asked_for'', linesep]]"
    by (simp add: res_start_waiting [OF conn_close_facts(1) h4] conn_close_facts
        choose_delimit_def fw written_of_def tcp_write_def t0_def Let_def del: join.simps)
  show ?thesis by (simp add: w l del: join.simps)
qed

section \<open>The end of a response\<close>

text \<open>
  C4, as amended. For a call of \<open>res_done\<close> in phase HEADERS_DONE with the transport
  there: when the error argument is set, the transport is closed whatever the delimiter
  and nothing is written; when it is not set, Chunked writes the last chunk
  \<open>0 CR LF CR LF\<close>, Close closes the transport, Counted and None leave the transport as
  it is. In every one of these cases the phase is WAITING afterwards, also when the
  transport has been closed.
\<close>

theorem res_done_effects:
  assumes "res_state c = HEADERS_DONE"
    and "tcp_conn c = Some t"
  shows "(err \<noteq> None \<longrightarrow>
            res_done c err = (Inr (), c\<lparr>res_state := WAITING, tcp_conn := Some (tcp_close t)\<rparr>))
       \<and> (res_delimit c = Some CHUNKED \<longrightarrow>
            res_done c None =
              (Inr (), c\<lparr>res_state := WAITING,
                 tcp_conn := Some (tcp_write t [CHR ''0'', CHR 0x0D, CHR 0x0A, CHR 0x0D, CHR 0x0A])\<rparr>))
       \<and> (res_delimit c = Some CLOSE \<longrightarrow>
            res_done c None = (Inr (), c\<lparr>res_state := WAITING, tcp_conn := Some (tcp_close t)\<rparr>))
       \<and> (res_delimit c = Some COUNTED \<or> res_delimit c = Some NONE \<longrightarrow>
            res_done c None = (Inr (), c\<lparr>res_state := WAITING\<rparr>))
       \<and> res_state (snd (res_done c err)) = WAITING"
  using assms by (auto simp: res_done_def Let_def)

lemma conn_open_facts:
  "res_state (conn_open d) = HEADERS_DONE" "tcp_conn (conn_open d) = Some t0"
  "res_delimit (conn_open d) = Some d"
  by (simp_all add: conn_open_def conn_11_def conn0_def init_conn_def)

theorem res_done_effects_witness:
  "res_state (conn_open CHUNKED) = HEADERS_DONE
   \<and> tcp_conn (conn_open CHUNKED) = Some t0
   \<and> Some err_host_req \<noteq> None
   \<and> res_done (conn_open CHUNKED) (Some err_host_req) =
       (Inr (), (conn_open CHUNKED)\<lparr>res_state := WAITING, tcp_conn := Some (tcp_close t0)\<rparr>)
   \<and> res_delimit (conn_open CHUNKED) = Some CHUNKED
   \<and> res_done (conn_open CHUNKED) None =
       (Inr (), (conn_open CHUNKED)\<lparr>res_state := WAITING,
          tcp_conn := Some (tcp_write t0 [CHR ''0'', CHR 0x0D, CHR 0x0A, CHR 0x0D, CHR 0x0A])\<rparr>)
   \<and> res_state (snd (res_done (conn_open CHUNKED) None)) = WAITING"
  using res_done_effects [OF conn_open_facts(1) [of CHUNKED] conn_open_facts(2) [of CHUNKED],
      of "Some err_host_req"]
    res_done_effects [OF conn_open_facts(1) [of CHUNKED] conn_open_facts(2) [of CHUNKED], of None]
  by (simp add: conn_open_facts)

text \<open>
  A counted response ended with an error: the transport is closed and the phase is
  WAITING all the same.
\<close>

theorem phase_waiting_after_close:
  "res_state (snd (res_done (conn_open COUNTED) (Some err_host_req))) = WAITING
   \<and> tcp_conn (snd (res_done (conn_open COUNTED) (Some err_host_req)))
       = Some \<lparr>written = [], closed = True\<rparr>"
  by (simp add: res_done_def conn_open_facts tcp_close_def t0_def Let_def)

section \<open>The chunked coding of a body chunk\<close>

lemma hex_char_props:
  assumes "d < 16"
  shows "hex_val (hex_char d) = Some d" and "hex_char d \<noteq> CHR 0x0D"
proof -
  from assms have "d = 0 \<or> d = 1 \<or> d = 2 \<or> d = 3 \<or> d = 4 \<or> d = 5 \<or> d = 6 \<or> d = 7
      \<or> d = 8 \<or> d = 9 \<or> d = 10 \<or> d = 11 \<or> d = 12 \<or> d = 13 \<or> d = 14 \<or> d = 15"
    by arith
  then show "hex_val (hex_char d) = Some d" and "hex_char d \<noteq> CHR 0x0D"
    by (elim disjE; simp add: hex_val_def hex_char_def)+
qed

lemma hex_step_Some:
  "hex_step (Some a) ch = (case hex_val ch of None \<Rightarrow> None | Some d \<Rightarrow> Some (16 * a + d))"
  by (simp add: hex_step_def)

lemma hex_digits_props:
  "hex_digits n \<noteq> [] \<and> CHR 0x0D \<notin> set (hex_digits n)
     \<and> foldl hex_step (Some 0) (hex_digits n) = Some n"
proof (induction n rule: hex_digits.induct)
  case (1 n)
  show ?case
  proof (cases "n < 16")
    case True
    then show ?thesis
      using hex_char_props [OF True]
      by (simp add: hex_digits.simps [of n] hex_step_Some)
  next
    case False
    have m: "n mod 16 < 16" by simp
    from False 1 have ih: "CHR 0x0D \<notin> set (hex_digits (n div 16))"
      "foldl hex_step (Some 0) (hex_digits (n div 16)) = Some (n div 16)" by simp_all
    from False ih hex_char_props [OF m] show ?thesis
      by (simp add: hex_digits.simps [of n] hex_step_Some)
  qed
qed

lemma parse_hex_hex_digits: "parse_hex (hex_digits n) = Some n"
  using hex_digits_props [of n] by (simp add: parse_hex_def)

lemma py_hex_drop: "drop 2 (py_hex n) = hex_digits n"
  by (simp add: py_hex_def)

lemma ref_chunk_decode_encoded:
  "ref_chunk_decode (hex_digits (length chunk) @ [CHR 0x0D, CHR 0x0A] @ chunk
       @ [CHR 0x0D, CHR 0x0A] @ following) = Some (chunk, following)"
proof -
  let ?h = "hex_digits (length chunk)"
  let ?rest = "[CHR 0x0D, CHR 0x0A] @ chunk @ [CHR 0x0D, CHR 0x0A] @ following"
  have nocr: "\<And>x. x \<in> set ?h \<Longrightarrow> x \<noteq> CHR 0x0D"
    using hex_digits_props [of "length chunk"] by auto
  have tw: "takeWhile (\<lambda>c. c \<noteq> CHR 0x0D) (?h @ ?rest) = ?h"
    using nocr by (simp add: takeWhile_append2)
  have dw: "dropWhile (\<lambda>c. c \<noteq> CHR 0x0D) (?h @ ?rest) = ?rest"
    using nocr by (simp add: dropWhile_append2)
  have dr: "drop (length chunk + 4) ?rest = following"
  proof -
    let ?p = "[CHR 0x0D, CHR 0x0A] @ chunk @ [CHR 0x0D, CHR 0x0A]"
    have "?rest = ?p @ following" by simp
    moreover have "length ?p = length chunk + 4" by simp
    ultimately show ?thesis by (metis append_eq_conv_conj)
  qed
  show ?thesis
    unfolding ref_chunk_decode_def Let_def tw dw
    using dr by (simp add: parse_hex_hex_digits)
qed

text \<open>
  C3. For a non-empty chunk, \<open>res_body\<close> on an open response with the Chunked delimiter
  (the transport there) writes, in one write, the length of the chunk in hexadecimal
  digits without \<open>0x\<close>, then CR LF, the bytes of the chunk, and CR LF; and the reference
  decoder reads exactly the chunk back from what was written, with nothing left over.
\<close>

theorem chunk_round_trip:
  assumes "chunk \<noteq> []"
    and "res_state c = HEADERS_DONE"
    and "res_delimit c = Some CHUNKED"
    and "tcp_conn c = Some t"
  shows "res_body c chunk =
           (Inr (), c\<lparr>tcp_conn := Some (tcp_write t
              (hex_digits (length chunk) @ [CHR 0x0D, CHR 0x0A] @ chunk @ [CHR 0x0D, CHR 0x0A]))\<rparr>)
       \<and> parse_hex (hex_digits (length chunk)) = Some (length chunk)
       \<and> ref_chunk_decode
           (hex_digits (length chunk) @ [CHR 0x0D, CHR 0x0A] @ chunk @ [CHR 0x0D, CHR 0x0A])
         = Some (chunk, [])"
proof -
  have "res_body c chunk =
           (Inr (), c\<lparr>tcp_conn := Some (tcp_write t
              (hex_digits (length chunk) @ [CHR 0x0D, CHR 0x0A] @ chunk @ [CHR 0x0D, CHR 0x0A]))\<rparr>)"
    using assms by (simp add: res_body_def py_hex_drop)
  moreover have "ref_chunk_decode
           (hex_digits (length chunk) @ [CHR 0x0D, CHR 0x0A] @ chunk @ [CHR 0x0D, CHR 0x0A])
         = Some (chunk, [])"
    using ref_chunk_decode_encoded [of chunk "[]"] by simp
  ultimately show ?thesis by (simp add: parse_hex_hex_digits)
qed

theorem chunk_round_trip_witness:
  "''foo!'' \<noteq> []
   \<and> res_state (conn_open CHUNKED) = HEADERS_DONE
   \<and> res_delimit (conn_open CHUNKED) = Some CHUNKED
   \<and> tcp_conn (conn_open CHUNKED) = Some t0
   \<and> res_body (conn_open CHUNKED) ''foo!'' =
       (Inr (), (conn_open CHUNKED)\<lparr>tcp_conn := Some (tcp_write t0
          (''4'' @ [CHR 0x0D, CHR 0x0A] @ ''foo!'' @ [CHR 0x0D, CHR 0x0A]))\<rparr>)
   \<and> ref_chunk_decode (''4'' @ [CHR 0x0D, CHR 0x0A] @ ''foo!'' @ [CHR 0x0D, CHR 0x0A])
       = Some (''foo!'', [])"
proof -
  have h1: "''foo!'' \<noteq> []" by simp
  have hx: "hex_digits (length ''foo!'') = ''4''"
    by (simp add: hex_digits.simps hex_char_def)
  from chunk_round_trip [OF h1 conn_open_facts(1) [of CHUNKED] conn_open_facts(3) [of CHUNKED]
      conn_open_facts(2) [of CHUNKED]]
  show ?thesis
    unfolding hx by (simp add: conn_open_facts)
qed

section \<open>The start of a request\<close>

lemma version_chunks_eq_1_1:
  assumes "float_eq v lit_1_1"
  shows "version_chunks (Some v)"
  using assms
  by (cases v) (simp_all add: version_chunks_def lit_1_1_def lit_2_0_def float_ge_def)

lemma error_response_started:
  assumes "res_state c = WAITING" and "tcp_conn c = Some t"
  shows "fst (res_start hop c code phrase [(''Content-Type'', ''text/plain'')] cb) = Inr ()
       \<and> res_state (snd (res_start hop c code phrase [(''Content-Type'', ''text/plain'')] cb))
           = HEADERS_DONE
       \<and> (\<exists>t'. tcp_conn (snd (res_start hop c code phrase [(''Content-Type'', ''text/plain'')] cb))
              = Some t' \<and> closed t' = closed t)"
proof -
  have p: "list_all (\<lambda>v. py_int v \<noteq> None) (cl_values [(''Content-Type'', ''text/plain'')])"
    by (simp add: cl_values_def hdr_name_def name_content_type)
  show ?thesis
    using assms(2)
    by (simp add: res_start_waiting [OF assms(1) p] Let_def tcp_write_def)
qed

lemma res_body_open:
  assumes "res_state c = HEADERS_DONE" and "tcp_conn c = Some t"
  shows "fst (res_body c chunk) = Inr ()
       \<and> res_state (snd (res_body c chunk)) = HEADERS_DONE
       \<and> (\<exists>t'. tcp_conn (snd (res_body c chunk)) = Some t' \<and> closed t' = closed t)"
  using assms by (simp add: res_body_def Let_def tcp_write_def)

lemma handle_error_stops:
  assumes "res_state c = WAITING" and "tcp_conn c = Some t"
  shows "handle_error hop c err None =
           (Inl TypeError,
            snd (res_body
              (snd (res_start hop c
                 (fst (case status err of None \<Rightarrow> (''400'', ''Bad Request'') | Some st \<Rightarrow> st))
                 (snd (case status err of None \<Rightarrow> (''400'', ''Bad Request'') | Some st \<Rightarrow> st))
                 [(''Content-Type'', ''text/plain'')] dummy))
              (desc err @ (case detail err of None \<Rightarrow> [] | Some d \<Rightarrow> '' ('' @ d @ '')''))))"
proof -
  let ?body = "desc err @ (case detail err of None \<Rightarrow> [] | Some d \<Rightarrow> '' ('' @ d @ '')'')"
  obtain code phrase where st:
    "(case status err of None \<Rightarrow> (''400'', ''Bad Request'') | Some st \<Rightarrow> st) = (code, phrase)"
    by (cases "case status err of None \<Rightarrow> (''400'', ''Bad Request'') | Some st \<Rightarrow> st")
  let ?r1 = "res_start hop c code phrase [(''Content-Type'', ''text/plain'')] dummy"
  from error_response_started [OF assms, of hop code phrase dummy]
  obtain t' where r1: "fst ?r1 = Inr ()" "res_state (snd ?r1) = HEADERS_DONE"
    "tcp_conn (snd ?r1) = Some t'" by blast
  obtain c1 where e1: "?r1 = (Inr (), c1)" using r1(1) by (cases ?r1) simp
  from r1(2,3) e1 have c1: "res_state c1 = HEADERS_DONE" "tcp_conn c1 = Some t'" by simp_all
  from res_body_open [OF c1, of ?body] have "fst (res_body c1 ?body) = Inr ()" by simp
  then obtain c2 where e2: "res_body c1 ?body = (Inr (), c2)" by (cases "res_body c1 ?body") simp
  show ?thesis
    using assms(1) by (simp add: handle_error_def Let_def st e1 e2)
qed

text \<open>
  C5. A request of version 1.1 without a Host header, arriving while the connection waits
  (both phases WAITING, the transport there): \<open>_handle_error\<close> runs \<open>res_start\<close> and
  \<open>res_body\<close>, which both return, and then the call \<open>self.res_done()\<close> raises TypeError,
  since \<open>res_done\<close> requires its argument. \<open>_input_start\<close> ends with that TypeError and
  the connection is as \<open>res_body\<close> left it: the response is still open (HEADERS_DONE),
  and the transport has been neither closed nor given the end of the body.
\<close>

theorem missing_host_response_not_finished:
  assumes "input_state c = WAITING"
    and "res_state c = WAITING"
    and "tcp_conn c = Some t"
    and "parse_top_line py_float top_line = Inr (m, u, v)"
    and "float_eq v lit_1_1"
    and "''host'' \<notin> set (map (\<lambda>(k, v). lower (strip k)) hdr_tuples)"
  shows "input_start py_float request_handler hop err_version err_host c top_line hdr_tuples
           conn_tokens transfer_codes content_length =
           (Inl TypeError,
            snd (res_body
              (snd (res_start hop (c\<lparr>req_version := Some v\<rparr>)
                 (fst (case status err_host of None \<Rightarrow> (''400'', ''Bad Request'') | Some st \<Rightarrow> st))
                 (snd (case status err_host of None \<Rightarrow> (''400'', ''Bad Request'') | Some st \<Rightarrow> st))
                 [(''Content-Type'', ''text/plain'')] dummy))
              (desc err_host
                 @ (case detail err_host of None \<Rightarrow> [] | Some d \<Rightarrow> '' ('' @ d @ '')''))))
       \<and> res_state (snd (input_start py_float request_handler hop err_version err_host c
            top_line hdr_tuples conn_tokens transfer_codes content_length)) = HEADERS_DONE
       \<and> (\<exists>t'. tcp_conn (snd (input_start py_float request_handler hop err_version err_host c
            top_line hdr_tuples conn_tokens transfer_codes content_length)) = Some t'
              \<and> closed t' = closed t)"
proof -
  let ?c1 = "c\<lparr>req_version := Some v\<rparr>"
  let ?st = "case status err_host of None \<Rightarrow> (''400'', ''Bad Request'') | Some st \<Rightarrow> st"
  let ?body = "desc err_host @ (case detail err_host of None \<Rightarrow> [] | Some d \<Rightarrow> '' ('' @ d @ '')'')"
  let ?r1 = "res_start hop ?c1 (fst ?st) (snd ?st) [(''Content-Type'', ''text/plain'')] dummy"
  have w: "res_state ?c1 = WAITING" and tr: "tcp_conn ?c1 = Some t"
    using assms(2,3) by simp_all
  have he: "handle_error hop ?c1 err_host None = (Inl TypeError, snd (res_body (snd ?r1) ?body))"
    by (rule handle_error_stops [OF w tr])
  have eq: "input_start py_float request_handler hop err_version err_host c top_line hdr_tuples
      conn_tokens transfer_codes content_length
      = (Inl TypeError, snd (res_body (snd ?r1) ?body))"
    using assms(1,4,5,6) he by (simp add: input_start_def Let_def)
  from error_response_started [OF w tr, of hop "fst ?st" "snd ?st" dummy]
  obtain t1 where r1: "res_state (snd ?r1) = HEADERS_DONE" "tcp_conn (snd ?r1) = Some t1"
    "closed t1 = closed t" by blast
  from res_body_open [OF r1(1,2), of ?body] r1(3)
  have "res_state (snd (res_body (snd ?r1) ?body)) = HEADERS_DONE
      \<and> (\<exists>t'. tcp_conn (snd (res_body (snd ?r1) ?body)) = Some t' \<and> closed t' = closed t)"
    by auto
  with eq show ?thesis by simp
qed

text \<open>
  The request \<open>GET / HTTP/1.1\<close> with the one header \<open>Accept\<close>, on a new connection: the
  status line and headers of a 400 response are written, then the body as one chunk,
  and nothing after it.
\<close>

lemma conn0_facts:
  "input_state conn0 = WAITING" "res_state conn0 = WAITING" "tcp_conn conn0 = Some t0"
  "connection_hdr conn0 = []" "req_version conn0 = None"
  by (simp_all add: conn0_def init_conn_def)

lemma parse_get_1_1: "parse_top_line float_example ''GET / HTTP/1.1'' = Inr (''GET'', ''/'', lit_1_1)"
  by (simp add: parse_top_line_def split_ws1_def rsplit_ws1_def rsplit_slash1_def is_space_def
      float_example_def)

lemma res_body_chunked:
  assumes "chunk \<noteq> []"
    and "res_state c = HEADERS_DONE"
    and "res_delimit c = Some CHUNKED"
    and "tcp_conn c = Some t"
  shows "res_body c chunk =
           (Inr (), c\<lparr>tcp_conn := Some (tcp_write t
              (hex_digits (length chunk) @ [CHR 0x0D, CHR 0x0A] @ chunk @ [CHR 0x0D, CHR 0x0A]))\<rparr>)"
  using assms by (simp add: res_body_def py_hex_drop)

lemma host_error_response:
  "snd (res_body (snd (res_start hop_http (conn0\<lparr>req_version := Some lit_1_1\<rparr>)
       ''400'' ''Bad Request'' [(''Content-Type'', ''text/plain'')] dummy))
     ''Host header required'')
   = conn0\<lparr>req_version := Some lit_1_1, res_body_pause_cb := Some dummy,
        res_delimit := Some CHUNKED,
        tcp_conn := Some \<lparr>written =
          [join linesep [''HTTP/1.1 400 Bad Request'', ''Content-Type: text/plain'',
             ''Transfer-Encoding: chunked'', linesep],
           ''14'' @ [CHR 0x0D, CHR 0x0A] @ ''Host header required'' @ [CHR 0x0D, CHR 0x0A]],
          closed = False\<rparr>,
        res_state := HEADERS_DONE\<rparr>"
proof -
  have w: "res_state (conn0\<lparr>req_version := Some lit_1_1\<rparr>) = WAITING"
    by (simp add: conn0_facts)
  have p: "list_all (\<lambda>v. py_int v \<noteq> None) (cl_values [(''Content-Type'', ''text/plain'')])"
    by (simp add: cl_values_def hdr_name_def name_content_type)
  have fw: "forwarded hop_http [(''Content-Type'', ''text/plain'')] = [''Content-Type: text/plain'']"
    by (simp add: forwarded_def hdr_name_def name_content_type hop_http_def)
  have dl: "declared_len [(''Content-Type'', ''text/plain'')] = None"
    by (simp add: declared_len_def cl_values_def hdr_name_def name_content_type)
  have hx: "hex_digits (length ''Host header required'') = ''14''"
    by (simp add: hex_digits.simps hex_char_def)
  have r1: "res_start hop_http (conn0\<lparr>req_version := Some lit_1_1\<rparr>)
       ''400'' ''Bad Request'' [(''Content-Type'', ''text/plain'')] dummy
     = (Inr (), conn0\<lparr>req_version := Some lit_1_1, res_body_pause_cb := Some dummy,
          res_delimit := Some CHUNKED,
          tcp_conn := Some \<lparr>written =
            [join linesep [''HTTP/1.1 400 Bad Request'', ''Content-Type: text/plain'',
               ''Transfer-Encoding: chunked'', linesep]], closed = False\<rparr>,
          res_state := HEADERS_DONE\<rparr>)"
    by (simp add: res_start_waiting [OF w p] conn0_facts choose_delimit_def version_chunks_1_1
        fw dl Let_def tcp_write_def t0_def del: join.simps)
  let ?c1 = "conn0\<lparr>req_version := Some lit_1_1, res_body_pause_cb := Some dummy,
          res_delimit := Some CHUNKED,
          tcp_conn := Some \<lparr>written =
            [join linesep [''HTTP/1.1 400 Bad Request'', ''Content-Type: text/plain'',
               ''Transfer-Encoding: chunked'', linesep]], closed = False\<rparr>,
          res_state := HEADERS_DONE\<rparr>"
  have rb: "res_body ?c1 ''Host header required''
     = (Inr (), ?c1\<lparr>tcp_conn := Some (tcp_write \<lparr>written =
            [join linesep [''HTTP/1.1 400 Bad Request'', ''Content-Type: text/plain'',
               ''Transfer-Encoding: chunked'', linesep]], closed = False\<rparr>
          (hex_digits (length ''Host header required'') @ [CHR 0x0D, CHR 0x0A]
             @ ''Host header required'' @ [CHR 0x0D, CHR 0x0A]))\<rparr>)"
    by (rule res_body_chunked) simp_all
  show ?thesis
    unfolding r1 snd_conv rb hx
    by (simp add: tcp_write_def del: join.simps)
qed

theorem missing_host_response_not_finished_witness:
  "input_state conn0 = WAITING
   \<and> res_state conn0 = WAITING
   \<and> tcp_conn conn0 = Some t0
   \<and> parse_top_line float_example ''GET / HTTP/1.1'' = Inr (''GET'', ''/'', lit_1_1)
   \<and> float_eq lit_1_1 lit_1_1
   \<and> ''host'' \<notin> set (map (\<lambda>(k, v). lower (strip k)) [(''Accept'', ''*/*'')])
   \<and> input_start float_example (test_handler hop_http) hop_http err_http_version err_host_req
        conn0 ''GET / HTTP/1.1'' [(''Accept'', ''*/*'')] [] [] None =
       (Inl TypeError,
        conn0\<lparr>req_version := Some lit_1_1, res_body_pause_cb := Some dummy,
          res_delimit := Some CHUNKED,
          tcp_conn := Some \<lparr>written =
            [join linesep [''HTTP/1.1 400 Bad Request'', ''Content-Type: text/plain'',
               ''Transfer-Encoding: chunked'', linesep],
             ''14'' @ [CHR 0x0D, CHR 0x0A] @ ''Host header required'' @ [CHR 0x0D, CHR 0x0A]],
            closed = False\<rparr>,
          res_state := HEADERS_DONE\<rparr>)"
proof -
  have h5: "float_eq lit_1_1 lit_1_1" by (simp add: lit_1_1_def)
  have h6: "''host'' \<notin> set (map (\<lambda>(k, v). lower (strip k)) [(''Accept'', ''*/*'')])"
    by (simp add: lower_def lower_char_def strip_def is_space_def)
  from missing_host_response_not_finished [OF conn0_facts(1) conn0_facts(2) conn0_facts(3)
      parse_get_1_1 h5 h6, of "test_handler hop_http" hop_http err_http_version err_host_req
      "[]" "[]" None]
  have "input_start float_example (test_handler hop_http) hop_http err_http_version err_host_req
        conn0 ''GET / HTTP/1.1'' [(''Accept'', ''*/*'')] [] [] None =
       (Inl TypeError,
        snd (res_body (snd (res_start hop_http (conn0\<lparr>req_version := Some lit_1_1\<rparr>)
          ''400'' ''Bad Request'' [(''Content-Type'', ''text/plain'')] dummy))
          ''Host header required''))"
    by (simp add: err_host_req_def)
  then show ?thesis
    using h5 h6 conn0_facts(1,2,3) parse_get_1_1 by (simp only: host_error_response simp_thms)
qed

section \<open>Whether a request body is expected\<close>

lemma input_start_returns:
  assumes "input_state c = WAITING"
    and "parse_top_line py_float top_line = Inr (m, u, v)"
    and "\<not> (float_eq v lit_1_1
             \<and> ''host'' \<notin> set (map (\<lambda>(k, v). lower (strip k)) hdr_tuples))"
    and "request_handler m u hdr_tuples (c\<lparr>req_version := Some v, meth := Some m,
           connection_hdr := conn_tokens\<rparr>) = (Inr (body_cb, done_cb), c3)"
  shows "input_start py_float request_handler hop err_version err_host c top_line hdr_tuples
           conn_tokens transfer_codes content_length =
           (Inr (allows_body content_length transfer_codes),
            c3\<lparr>req_body_cb := Some body_cb, req_done_cb := Some done_cb\<rparr>)"
proof (cases "float_eq v lit_1_1
        \<and> ''host'' \<notin> set (map (\<lambda>(k, v). lower (strip k)) hdr_tuples)")
  case True
  with assms(3) show ?thesis by simp
next
  case False
  then show ?thesis
    using assms(1,2,4) by (auto simp: input_start_def Let_def)
qed

text \<open>
  C9, as amended. When a request start passes the checks of \<open>_input_start\<close> (the parser
  waits, the start line parses, and the request is not a 1.1 request without Host) and
  the handler returns, \<open>_input_start\<close> returns \<open>content_length or (transfer_codes != [])\<close>:
  a value that is true exactly when the parser's content length is there and is not 0,
  or the transfer-coding list is not empty.
\<close>

theorem expect_body_value:
  assumes "input_state c = WAITING"
    and "parse_top_line py_float top_line = Inr (m, u, v)"
    and "\<not> (float_eq v lit_1_1
             \<and> ''host'' \<notin> set (map (\<lambda>(k, v). lower (strip k)) hdr_tuples))"
    and "request_handler m u hdr_tuples (c\<lparr>req_version := Some v, meth := Some m,
           connection_hdr := conn_tokens\<rparr>) = (Inr (body_cb, done_cb), c3)"
  shows "input_start py_float request_handler hop err_version err_host c top_line hdr_tuples
           conn_tokens transfer_codes content_length =
           (Inr (allows_body content_length transfer_codes),
            c3\<lparr>req_body_cb := Some body_cb, req_done_cb := Some done_cb\<rparr>)
       \<and> (py_truthy (allows_body content_length transfer_codes) \<longleftrightarrow>
            (\<exists>n. content_length = Some n \<and> n \<noteq> 0) \<or> transfer_codes \<noteq> [])"
proof -
  have "py_truthy (allows_body content_length transfer_codes) \<longleftrightarrow>
            (\<exists>n. content_length = Some n \<and> n \<noteq> 0) \<or> transfer_codes \<noteq> []"
    by (cases content_length) (simp_all add: allows_body_def)
  moreover have "input_start py_float request_handler hop err_version err_host c top_line
      hdr_tuples conn_tokens transfer_codes content_length =
      (Inr (allows_body content_length transfer_codes),
       c3\<lparr>req_body_cb := Some body_cb, req_done_cb := Some done_cb\<rparr>)"
    by (rule input_start_returns) (fact assms)+
  ultimately show ?thesis by simp
qed

lemma name_host: "lower (strip ''Host'') = ''host''"
  by (simp add: lower_def lower_char_def strip_def is_space_def)

lemma parse_post_1_1:
  "parse_top_line float_example ''POST /form HTTP/1.1'' = Inr (''POST'', ''/form'', lit_1_1)"
  by (simp add: parse_top_line_def split_ws1_def rsplit_ws1_def rsplit_slash1_def is_space_def
      float_example_def)

lemma test_handler_first_response:
  assumes "res_state c = WAITING" and "tcp_conn c = Some t"
    and "connection_hdr c = []" and "req_version c = Some lit_1_1"
  shows "test_handler hop_http m u hdrs c =
     (Inr (dummy, dummy),
      c\<lparr>res_body_pause_cb := Some dummy, res_delimit := Some CHUNKED,
        tcp_conn := Some (tcp_write (tcp_write (tcp_write t
           (join linesep [''HTTP/1.1 200 OK'', ''Content-Type: text/plain'',
              ''Transfer-Encoding: chunked'', linesep]))
           (''4'' @ [CHR 0x0D, CHR 0x0A] @ ''foo!'' @ [CHR 0x0D, CHR 0x0A]))
           [CHR ''0'', CHR 0x0D, CHR 0x0A, CHR 0x0D, CHR 0x0A]),
        res_state := WAITING\<rparr>)"
proof -
  have p: "list_all (\<lambda>v. py_int v \<noteq> None) (cl_values [(''Content-Type'', ''text/plain'')])"
    by (simp add: cl_values_def hdr_name_def name_content_type)
  have fw: "forwarded hop_http [(''Content-Type'', ''text/plain'')] = [''Content-Type: text/plain'']"
    by (simp add: forwarded_def hdr_name_def name_content_type hop_http_def)
  have dl: "declared_len [(''Content-Type'', ''text/plain'')] = None"
    by (simp add: declared_len_def cl_values_def hdr_name_def name_content_type)
  have hx: "hex_digits (length ''foo!'') = ''4''"
    by (simp add: hex_digits.simps hex_char_def)
  define block where "block = join linesep [''HTTP/1.1 200 OK'', ''Content-Type: text/plain'',
              ''Transfer-Encoding: chunked'', linesep]"
  define c1 where "c1 = c\<lparr>res_body_pause_cb := Some dummy, res_delimit := Some CHUNKED,
        tcp_conn := Some (tcp_write t block), res_state := HEADERS_DONE\<rparr>"
  define c2 where "c2 = c1\<lparr>tcp_conn := Some (tcp_write (tcp_write t block)
        (''4'' @ [CHR 0x0D, CHR 0x0A] @ ''foo!'' @ [CHR 0x0D, CHR 0x0A]))\<rparr>"
  define c3 where "c3 = c2\<lparr>res_state := WAITING,
        tcp_conn := Some (tcp_write (tcp_write (tcp_write t block)
          (''4'' @ [CHR 0x0D, CHR 0x0A] @ ''foo!'' @ [CHR 0x0D, CHR 0x0A]))
          [CHR ''0'', CHR 0x0D, CHR 0x0A, CHR 0x0D, CHR 0x0A])\<rparr>"
  have r1: "res_start hop_http c ''200'' ''OK'' [(''Content-Type'', ''text/plain'')] dummy
      = (Inr (), c1)"
    using assms(2,3,4)
    by (simp add: res_start_waiting [OF assms(1) p] choose_delimit_def version_chunks_1_1
        fw dl Let_def c1_def block_def del: join.simps)
  have "res_body c1 ''foo!'' = (Inr (), c1\<lparr>tcp_conn := Some (tcp_write (tcp_write t block)
        (hex_digits (length ''foo!'') @ [CHR 0x0D, CHR 0x0A] @ ''foo!'' @ [CHR 0x0D, CHR 0x0A]))\<rparr>)"
    by (rule res_body_chunked) (simp_all add: c1_def)
  then have r2: "res_body c1 ''foo!'' = (Inr (), c2)"
    unfolding hx c2_def .
  have r3: "res_done c2 None = (Inr (), c3)"
    by (simp add: res_done_def Let_def c3_def c2_def c1_def)
  have "test_handler hop_http m u hdrs c = (Inr (dummy, dummy), c3)"
    by (simp add: test_handler_def r1 r2 r3)
  then show ?thesis
    by (simp add: c3_def c2_def c1_def block_def hx del: join.simps)
qed

text \<open>
  The example: \<open>POST /form HTTP/1.1\<close> with a Host header, handled by \<open>test_handler\<close> on a
  new connection.
\<close>

lemma post_not_rejected:
  "\<not> (float_eq lit_1_1 lit_1_1
       \<and> ''host'' \<notin> set (map (\<lambda>(k, v). lower (strip k))
            [(''Host'', ''example.org''), (''Content-Length'', val)]))"
  by (simp add: name_host)

lemma post_handled:
  "test_handler hop_http ''POST'' ''/form'' hdrs
     (conn0\<lparr>req_version := Some lit_1_1, meth := Some ''POST'', connection_hdr := []\<rparr>) =
   (Inr (dummy, dummy),
    conn0\<lparr>req_version := Some lit_1_1, meth := Some ''POST'', connection_hdr := [],
      res_body_pause_cb := Some dummy, res_delimit := Some CHUNKED,
      tcp_conn := Some (tcp_write (tcp_write (tcp_write t0
         (join linesep [''HTTP/1.1 200 OK'', ''Content-Type: text/plain'',
            ''Transfer-Encoding: chunked'', linesep]))
         (''4'' @ [CHR 0x0D, CHR 0x0A] @ ''foo!'' @ [CHR 0x0D, CHR 0x0A]))
         [CHR ''0'', CHR 0x0D, CHR 0x0A, CHR 0x0D, CHR 0x0A]),
      res_state := WAITING\<rparr>)"
  by (rule test_handler_first_response) (simp_all add: conn0_facts)

theorem expect_body_value_witness:
  "input_state conn0 = WAITING
   \<and> parse_top_line float_example ''POST /form HTTP/1.1'' = Inr (''POST'', ''/form'', lit_1_1)
   \<and> \<not> (float_eq lit_1_1 lit_1_1
         \<and> ''host'' \<notin> set (map (\<lambda>(k, v). lower (strip k))
              [(''Host'', ''example.org''), (''Content-Length'', ''3'')]))
   \<and> fst (test_handler hop_http ''POST'' ''/form''
        [(''Host'', ''example.org''), (''Content-Length'', ''3'')]
        (conn0\<lparr>req_version := Some lit_1_1, meth := Some ''POST'', connection_hdr := []\<rparr>))
       = Inr (dummy, dummy)
   \<and> fst (input_start float_example (test_handler hop_http) hop_http err_http_version
        err_host_req conn0 ''POST /form HTTP/1.1''
        [(''Host'', ''example.org''), (''Content-Length'', ''3'')] [] [] (Some 3))
       = Inr (PyInt 3)
   \<and> py_truthy (PyInt 3)"
  using expect_body_value [where request_handler = "test_handler hop_http"
      and hop = hop_http and err_version = err_http_version and err_host = err_host_req
      and transfer_codes = "[]" and content_length = "Some 3",
      OF conn0_facts(1) parse_post_1_1 post_not_rejected [of "''3''"]
      post_handled [of "[(''Host'', ''example.org''), (''Content-Length'', ''3'')]"]]
    conn0_facts(1) parse_post_1_1 post_not_rejected [of "''3''"]
    post_handled [of "[(''Host'', ''example.org''), (''Content-Length'', ''3'')]"]
  by (simp add: allows_body_def del: join.simps)

text \<open>
  A request with \<open>Content-Length: 0\<close> and no transfer coding: the header is present, and
  the value returned to the parser is false.
\<close>

theorem zero_length_expects_no_body:
  "fst (input_start float_example (test_handler hop_http) hop_http err_http_version
        err_host_req conn0 ''POST /form HTTP/1.1''
        [(''Host'', ''example.org''), (''Content-Length'', ''0'')] [] [] (Some 0))
       = Inr (PyBool False)
   \<and> \<not> py_truthy (PyBool False)
   \<and> spec_expect_body (Some 0) []"
  using input_start_returns [where request_handler = "test_handler hop_http"
      and hop = hop_http and err_version = err_http_version and err_host = err_host_req
      and transfer_codes = "[]" and content_length = "Some 0",
      OF conn0_facts(1) parse_post_1_1 post_not_rejected [of "''0''"]
      post_handled [of "[(''Host'', ''example.org''), (''Content-Length'', ''0'')]"]]
  by (simp add: allows_body_def spec_expect_body_def del: join.simps)

end
